theory Spec2Isabelle
  imports Main
begin

section \<open>Values exchanged with the model and the tools\<close>

text \<open>
  The values behind Python's \<open>Any\<close> in tool arguments and schemas: the JSON-shaped
  values (a float is carried as its \<open>repr\<close>). A \<open>dict\<close> is an association list in
  insertion order.
\<close>

datatype pyval =
    PNone
  | PBool bool
  | PInt int
  | PFloat string
  | PStr string
  | PList "pyval list"
  | PDict "(string \<times> pyval) list"

text \<open>
  A tool-call request as the provider returns it, a \<open>dict[str, Any]\<close> read only through
  \<open>in\<close> and \<open>.get\<close>: each key the code reads is an optional field (\<open>None\<close>: the key
  is absent; for \<open>id\<close>, also a key that holds Python's \<open>None\<close>), typed as the
  \<open>ToolCall\<close> it fills; every other key is kept in \<open>tc_extra\<close>.
\<close>

record function_data =
  fn_name :: "string option"
  fn_arguments :: "pyval option"

record tool_call_data =
  tc_function :: "function_data option"
  tc_name :: "string option"
  tc_arguments :: "pyval option"
  tc_id :: "string option"
  tc_extra :: "(string \<times> pyval) list"

text \<open>
  The two formats in which \<open>OllamaProvider.chat\<close> hands over a tool call, stored by the
  loop as they come: the client's object (new format), whose one field \<open>function\<close> is an
  object with \<open>name\<close> and \<open>arguments\<close> or a dict, and which answers \<open>in\<close> and \<open>.get\<close> by
  its fields, so that it has no \<open>id\<close>; and a plain dict (old format).
\<close>

datatype function_attr =
    FunctionObject string pyval
  | FunctionDict function_data

datatype tool_call_request =
    OllamaObject function_attr
  | PlainDict tool_call_data

text \<open>
  What the \<open>tool_calls\<close> of a stored message may hold, as \<open>_serialize_tool_calls\<close> tells
  it apart: a request in one of the two formats, or anything else (carried as its
  \<open>str()\<close>).
\<close>

datatype tool_call_item =
    Request tool_call_request
  | Unknown string

section \<open>llm/base.py: messages and responses\<close>

datatype MessageRole = SYSTEM | USER | ASSISTANT | TOOL

fun role_value :: "MessageRole \<Rightarrow> string" where
  "role_value SYSTEM = ''system''"
| "role_value USER = ''user''"
| "role_value ASSISTANT = ''assistant''"
| "role_value TOOL = ''tool''"

definition MessageRole_of :: "string \<Rightarrow> MessageRole option" where
  "MessageRole_of s =
     (if s = ''system'' then Some SYSTEM
      else if s = ''user'' then Some USER
      else if s = ''assistant'' then Some ASSISTANT
      else if s = ''tool'' then Some TOOL
      else None)"

record Message =
  role :: MessageRole
  content :: string
  tool_calls :: "tool_call_item list option"
  tool_call_id :: "string option"

definition Message_system :: "string \<Rightarrow> Message" where
  "Message_system c = \<lparr>role = SYSTEM, content = c, tool_calls = None, tool_call_id = None\<rparr>"

definition Message_user :: "string \<Rightarrow> Message" where
  "Message_user c = \<lparr>role = USER, content = c, tool_calls = None, tool_call_id = None\<rparr>"

definition Message_assistant :: "string \<Rightarrow> tool_call_item list option \<Rightarrow> Message" where
  "Message_assistant c tcs =
     \<lparr>role = ASSISTANT, content = c, tool_calls = tcs, tool_call_id = None\<rparr>"

definition Message_tool_result :: "string \<Rightarrow> string \<Rightarrow> Message" where
  "Message_tool_result c cid =
     \<lparr>role = TOOL, content = c, tool_calls = None, tool_call_id = Some cid\<rparr>"

record LLMResponse =
  llm_content :: string
  llm_tool_calls :: "tool_call_request list"
  finish_reason :: "string option"

definition has_tool_calls :: "LLMResponse \<Rightarrow> bool" where
  "has_tool_calls r = (llm_tool_calls r \<noteq> [])"

section \<open>agent/memory.py: ConversationMemory\<close>

record ConversationMemory =
  messages :: "Message list"
  system_prompt :: "string option"
  max_messages :: int

definition ConversationMemory_new :: ConversationMemory where
  "ConversationMemory_new = \<lparr>messages = [], system_prompt = None, max_messages = 100\<rparr>"

definition set_system_prompt :: "string \<Rightarrow> ConversationMemory \<Rightarrow> ConversationMemory" where
  "set_system_prompt prompt m = m\<lparr>system_prompt := Some prompt\<rparr>"

text \<open>
  \<open>self.messages[excess:]\<close> with \<open>excess > 0\<close> drops the first \<open>excess\<close> messages, all
  of them when \<open>excess\<close> exceeds the length (a negative bound).
\<close>

definition trim_if_needed :: "ConversationMemory \<Rightarrow> ConversationMemory" where
  "trim_if_needed m =
     (if int (length (messages m)) > max_messages m
      then (let excess = int (length (messages m)) - max_messages m
            in m\<lparr>messages := drop (nat excess) (messages m)\<rparr>)
      else m)"

definition add_user_message :: "string \<Rightarrow> ConversationMemory \<Rightarrow> ConversationMemory" where
  "add_user_message c m = trim_if_needed (m\<lparr>messages := messages m @ [Message_user c]\<rparr>)"

definition add_assistant_message ::
  "string \<Rightarrow> tool_call_item list option \<Rightarrow> ConversationMemory \<Rightarrow> ConversationMemory" where
  "add_assistant_message c tcs m =
     trim_if_needed (m\<lparr>messages := messages m @ [Message_assistant c tcs]\<rparr>)"

definition add_tool_result :: "string \<Rightarrow> string \<Rightarrow> ConversationMemory \<Rightarrow> ConversationMemory" where
  "add_tool_result c cid m =
     trim_if_needed (m\<lparr>messages := messages m @ [Message_tool_result c cid]\<rparr>)"

text \<open>\<open>if self.system_prompt\<close>: neither \<open>None\<close> nor the empty string.\<close>

definition get_messages :: "ConversationMemory \<Rightarrow> Message list" where
  "get_messages m =
     (case system_prompt m of
        None \<Rightarrow> messages m
      | Some p \<Rightarrow> (if p = [] then messages m else Message_system p # messages m))"

definition clear :: "ConversationMemory \<Rightarrow> ConversationMemory" where
  "clear m = m\<lparr>messages := []\<rparr>"

text \<open>The three append operations, as data, and a sequence of them applied in order.\<close>

datatype append_op =
    AddUser string
  | AddAssistant string "tool_call_item list option"
  | AddToolResult string string

fun appended_message :: "append_op \<Rightarrow> Message" where
  "appended_message (AddUser c) = Message_user c"
| "appended_message (AddAssistant c tcs) = Message_assistant c tcs"
| "appended_message (AddToolResult c cid) = Message_tool_result c cid"

fun apply_append :: "append_op \<Rightarrow> ConversationMemory \<Rightarrow> ConversationMemory" where
  "apply_append (AddUser c) m = add_user_message c m"
| "apply_append (AddAssistant c tcs) m = add_assistant_message c tcs m"
| "apply_append (AddToolResult c cid) m = add_tool_result c cid m"

fun apply_appends :: "append_op list \<Rightarrow> ConversationMemory \<Rightarrow> ConversationMemory" where
  "apply_appends [] m = m"
| "apply_appends (op # ops) m = apply_appends ops (apply_append op m)"

text \<open>The \<open>n\<close> most recent elements of a sequence, in order.\<close>

definition most_recent :: "nat \<Rightarrow> 'a list \<Rightarrow> 'a list" where
  "most_recent n xs = drop (length xs - n) xs"

subsection \<open>Serialization\<close>

text \<open>
  The dictionaries of \<open>to_dict\<close> and \<open>from_dict\<close>. \<open>from_dict\<close> indexes \<open>role\<close> and
  \<open>content\<close> (a missing key raises \<open>KeyError\<close>) and reads the rest through \<open>.get\<close>.
\<close>

record message_dict =
  md_role :: "string option"
  md_content :: "string option"
  md_tool_calls :: "tool_call_item list option"
  md_tool_call_id :: "string option"

record memory_dict =
  d_system_prompt :: "string option"
  d_messages :: "message_dict list option"

datatype py_error = KeyError string | ValueError string

text \<open>
  \<open>f.name if hasattr(f, 'name') else f.get("name", "")\<close>, which is also what
  \<open>f.get("name", "")\<close> answers on either kind of \<open>function\<close>; likewise for the arguments.
\<close>

definition function_get_name :: "function_attr \<Rightarrow> string" where
  "function_get_name f =
     (case f of
        FunctionObject n a \<Rightarrow> n
      | FunctionDict d \<Rightarrow> (case fn_name d of None \<Rightarrow> [] | Some n \<Rightarrow> n))"

definition function_get_arguments :: "function_attr \<Rightarrow> pyval" where
  "function_get_arguments f =
     (case f of
        FunctionObject n a \<Rightarrow> a
      | FunctionDict d \<Rightarrow> (case fn_arguments d of None \<Rightarrow> PDict [] | Some a \<Rightarrow> a))"

definition serialize_tool_call :: "tool_call_item \<Rightarrow> tool_call_item" where
  "serialize_tool_call tc =
     (case tc of
        Request (OllamaObject f) \<Rightarrow>
          Request (PlainDict
            \<lparr>tc_function = Some \<lparr>fn_name = Some (function_get_name f),
                                   fn_arguments = Some (function_get_arguments f)\<rparr>,
             tc_name = None, tc_arguments = None, tc_id = None, tc_extra = []\<rparr>)
      | Request (PlainDict d) \<Rightarrow> Request (PlainDict d)
      | Unknown s \<Rightarrow>
          Request (PlainDict
            \<lparr>tc_function = None, tc_name = None, tc_arguments = None, tc_id = None,
             tc_extra = [(''raw'', PStr s)]\<rparr>))"

text \<open>\<open>if not tool_calls: return None\<close> answers \<open>None\<close> for the empty list too.\<close>

definition serialize_tool_calls :: "tool_call_item list option \<Rightarrow> tool_call_item list option" where
  "serialize_tool_calls tcs =
     (case tcs of
        None \<Rightarrow> None
      | Some xs \<Rightarrow> (if xs = [] then None else Some (map serialize_tool_call xs)))"

definition message_to_dict :: "Message \<Rightarrow> message_dict" where
  "message_to_dict msg =
     \<lparr>md_role = Some (role_value (role msg)),
      md_content = Some (content msg),
      md_tool_calls = serialize_tool_calls (tool_calls msg),
      md_tool_call_id = tool_call_id msg\<rparr>"

definition to_dict :: "ConversationMemory \<Rightarrow> memory_dict" where
  "to_dict m =
     \<lparr>d_system_prompt = system_prompt m,
      d_messages = Some (map message_to_dict (messages m))\<rparr>"

definition message_from_dict :: "message_dict \<Rightarrow> py_error + Message" where
  "message_from_dict md =
     (case md_role md of
        None \<Rightarrow> Inl (KeyError ''role'')
      | Some r \<Rightarrow>
          (case MessageRole_of r of
             None \<Rightarrow> Inl (ValueError r)
           | Some ro \<Rightarrow>
               (case md_content md of
                  None \<Rightarrow> Inl (KeyError ''content'')
                | Some c \<Rightarrow>
                    Inr \<lparr>role = ro, content = c, tool_calls = md_tool_calls md,
                         tool_call_id = md_tool_call_id md\<rparr>)))"

text \<open>The loop of \<open>from_dict\<close>: one append per entry, no trimming; the first error leaves it.\<close>

fun from_dict_loop :: "message_dict list \<Rightarrow> ConversationMemory \<Rightarrow> py_error + ConversationMemory" where
  "from_dict_loop [] memory = Inr memory"
| "from_dict_loop (msg_data # rest) memory =
     (case message_from_dict msg_data of
        Inl e \<Rightarrow> Inl e
      | Inr msg \<Rightarrow> from_dict_loop rest (memory\<lparr>messages := messages memory @ [msg]\<rparr>))"

definition from_dict :: "memory_dict \<Rightarrow> py_error + ConversationMemory" where
  "from_dict data =
     from_dict_loop (case d_messages data of None \<Rightarrow> [] | Some ms \<Rightarrow> ms)
       (ConversationMemory_new\<lparr>system_prompt := d_system_prompt data\<rparr>)"

section \<open>Python's string operations the loop uses\<close>

text \<open>\<open>s or d\<close> on a string: \<open>d\<close> when \<open>s\<close> is empty.\<close>

definition str_or :: "string \<Rightarrow> string \<Rightarrow> string" where
  "str_or s d = (if s = [] then d else s)"

text \<open>\<open>x or d\<close> on \<open>str | None\<close>: \<open>d\<close> when \<open>x\<close> is \<open>None\<close> or empty.\<close>

definition opt_or :: "string option \<Rightarrow> string \<Rightarrow> string" where
  "opt_or x d = (case x of None \<Rightarrow> d | Some s \<Rightarrow> str_or s d)"

text \<open>\<open>sep.join(xs)\<close>.\<close>

fun join :: "string \<Rightarrow> string list \<Rightarrow> string" where
  "join sep [] = []"
| "join sep [x] = x"
| "join sep (x # y # ys) = x @ sep @ join sep (y # ys)"

text \<open>How an f-string renders a non-negative integer: decimal digits.\<close>

fun str_of_nat :: "nat \<Rightarrow> string" where
  "str_of_nat n =
     (if n < 10 then [''0123456789'' ! n]
      else str_of_nat (n div 10) @ [''0123456789'' ! (n mod 10)])"

definition apostrophe :: string where
  "apostrophe = [CHR 0x27]"

section \<open>tools/base.py and utils/exceptions.py\<close>

text \<open>
  \<open>data\<close> is any Python value; the loop reads it only through \<open>str(self.data)\<close>, so it
  is carried as that rendering (\<open>None\<close>: no data).
\<close>

record ToolResult =
  success :: bool
  data :: "string option"
  error :: "string option"

definition to_message :: "ToolResult \<Rightarrow> string" where
  "to_message r =
     (if success r
      then (case data r of Some d \<Rightarrow> d | None \<Rightarrow> ''Operation completed successfully.'')
      else ''Error: '' @ (case error r of Some e \<Rightarrow> e | None \<Rightarrow> ''None''))"

text \<open>
  The two tool errors the dispatcher raises, each with the arguments of its constructor,
  and \<open>str(e)\<close>: the message the constructor hands to \<open>Exception\<close>.
\<close>

datatype ToolError =
    ToolNotFoundError string
  | ToolExecutionError string string

fun str_of_ToolError :: "ToolError \<Rightarrow> string" where
  "str_of_ToolError (ToolNotFoundError tool_name) = ''Tool not found: '' @ tool_name"
| "str_of_ToolError (ToolExecutionError tool_name message) =
     ''Error executing '' @ tool_name @ '': '' @ message"

record ToolSchema =
  schema_name :: string
  schema_description :: string
  schema_parameters :: pyval

definition to_ollama_format :: "ToolSchema \<Rightarrow> pyval" where
  "to_ollama_format s =
     PDict [(''type'', PStr ''function''),
            (''function'', PDict [(''name'', PStr (schema_name s)),
                                  (''description'', PStr (schema_description s)),
                                  (''parameters'', schema_parameters s)])]"

text \<open>
  What calling a tool's \<open>execute(**kwargs)\<close> does: it returns a \<open>ToolResult\<close> or raises an
  exception (carried as its \<open>str(e)\<close>), and may change the world \<open>'w\<close> (files, network).
\<close>

datatype tool_outcome = Returned ToolResult | Raised string

record 'w Tool =
  tool_name :: string
  get_schema :: ToolSchema
  tool_execute :: "(string \<times> pyval) list \<Rightarrow> 'w \<Rightarrow> tool_outcome \<times> 'w"
  execute_qualname :: string

text \<open>The registry's \<open>_tools\<close> dict, in insertion order.\<close>

type_synonym 'w ToolRegistry = "(string \<times> 'w Tool) list"

definition registry_get :: "'w ToolRegistry \<Rightarrow> string \<Rightarrow> 'w Tool option" where
  "registry_get reg n = map_of reg n"

definition list_tools :: "'w ToolRegistry \<Rightarrow> string list" where
  "list_tools reg = map fst reg"

definition get_all_schemas :: "'w ToolRegistry \<Rightarrow> pyval list" where
  "get_all_schemas reg = map (\<lambda>(n, tool). to_ollama_format (get_schema tool)) reg"

section \<open>tools/dispatcher.py\<close>

record ToolCall =
  name :: string
  arguments :: pyval
  call_id :: "string option"

text \<open>\<open>tool_call.get("function", {})\<close> and \<open>tool_call.get("id")\<close>, on either format.\<close>

definition request_function :: "tool_call_request \<Rightarrow> function_attr" where
  "request_function tool_call =
     (case tool_call of
        OllamaObject f \<Rightarrow> f
      | PlainDict d \<Rightarrow>
          FunctionDict (case tc_function d of
                          None \<Rightarrow> \<lparr>fn_name = None, fn_arguments = None\<rparr>
                        | Some f \<Rightarrow> f))"

definition request_id :: "tool_call_request \<Rightarrow> string option" where
  "request_id tool_call = (case tool_call of OllamaObject f \<Rightarrow> None | PlainDict d \<Rightarrow> tc_id d)"

definition from_ollama_response :: "tool_call_request \<Rightarrow> ToolCall" where
  "from_ollama_response tool_call =
     (let function = request_function tool_call
      in \<lparr>name = function_get_name function,
          arguments = function_get_arguments function,
          call_id = request_id tool_call\<rparr>)"

text \<open>\<open>"function" in data\<close>.\<close>

definition has_function :: "tool_call_request \<Rightarrow> bool" where
  "has_function tc =
     (case tc of OllamaObject f \<Rightarrow> True | PlainDict d \<Rightarrow> tc_function d \<noteq> None)"

definition ToolCall_from_dict :: "tool_call_request \<Rightarrow> ToolCall" where
  "ToolCall_from_dict tc =
     (if has_function tc then from_ollama_response tc
      else (case tc of
              PlainDict d \<Rightarrow>
                \<lparr>name = (case tc_name d of None \<Rightarrow> [] | Some n \<Rightarrow> n),
                 arguments = (case tc_arguments d of None \<Rightarrow> PDict [] | Some a \<Rightarrow> a),
                 call_id = tc_id d\<rparr>
            | OllamaObject f \<Rightarrow> from_ollama_response tc))"

text \<open>
  What \<open>json.loads\<close> does with a text: it answers a value, raises \<open>JSONDecodeError\<close>, or
  raises another exception (carried as its \<open>str(e)\<close>). The dispatcher: its registry, and
  the \<open>json.loads\<close> it imports.
\<close>

datatype loads_outcome = Loaded pyval | JSONDecodeError | LoadsRaised string

record 'w ToolDispatcher =
  registry :: "'w ToolRegistry"
  json_loads :: "string \<Rightarrow> loads_outcome"

definition get_available_tools :: "'w ToolDispatcher \<Rightarrow> string list" where
  "get_available_tools disp = list_tools (registry disp)"

definition get_tool_schemas :: "'w ToolDispatcher \<Rightarrow> pyval list" where
  "get_tool_schemas disp = get_all_schemas (registry disp)"

fun py_type_name :: "pyval \<Rightarrow> string" where
  "py_type_name PNone = ''NoneType''"
| "py_type_name (PBool b) = ''bool''"
| "py_type_name (PInt i) = ''int''"
| "py_type_name (PFloat f) = ''float''"
| "py_type_name (PStr s) = ''str''"
| "py_type_name (PList xs) = ''list''"
| "py_type_name (PDict kvs) = ''dict''"

text \<open>The \<open>TypeError\<close> of \<open>f(**v)\<close> when \<open>v\<close> is not a mapping, as \<open>str(e)\<close>.\<close>

definition not_a_mapping :: "'w Tool \<Rightarrow> pyval \<Rightarrow> string" where
  "not_a_mapping tool v =
     execute_qualname tool @ ''() argument after ** must be a mapping, not '' @ py_type_name v"

text \<open>
  \<open>if isinstance(arguments, str): try json.loads, except JSONDecodeError: pass\<close>; \<open>Inl\<close> is
  another exception of \<open>json.loads\<close>, which the inner \<open>except\<close> does not catch.
\<close>

definition resolve_arguments :: "'w ToolDispatcher \<Rightarrow> pyval \<Rightarrow> string + pyval" where
  "resolve_arguments disp args =
     (case args of
        PStr s \<Rightarrow>
          (case json_loads disp s of
             Loaded v \<Rightarrow> Inr v
           | JSONDecodeError \<Rightarrow> Inr (PStr s)
           | LoadsRaised e \<Rightarrow> Inl e)
      | _ \<Rightarrow> Inr args)"

text \<open>
  \<open>execute\<close>: \<open>Inl\<close> is the \<open>ToolError\<close> raised. \<open>tool.execute(**arguments)\<close> reaches the
  tool only when \<open>arguments\<close> is a dict; every exception inside the \<open>try\<close> becomes a
  \<open>ToolExecutionError\<close>.
\<close>

text \<open>\<open>f"Tool '{tool_name}' not found. Available tools: {available}"\<close>.\<close>

definition not_found_text :: "'w ToolDispatcher \<Rightarrow> string \<Rightarrow> string" where
  "not_found_text disp n =
     ''Tool '' @ apostrophe @ n @ apostrophe @ '' not found. Available tools: ''
     @ join '', '' (get_available_tools disp)"

definition execute :: "'w ToolDispatcher \<Rightarrow> ToolCall \<Rightarrow> 'w \<Rightarrow> (ToolError + ToolResult) \<times> 'w" where
  "execute disp tool_call w =
     (case registry_get (registry disp) (name tool_call) of
        None \<Rightarrow> (Inl (ToolNotFoundError (not_found_text disp (name tool_call))), w)
      | Some tool \<Rightarrow>
          (case resolve_arguments disp (arguments tool_call) of
             Inl e \<Rightarrow> (Inl (ToolExecutionError (name tool_call) e), w)
           | Inr (PDict kwargs) \<Rightarrow>
               (case tool_execute tool kwargs w of
                  (Returned result, w') \<Rightarrow> (Inr result, w')
                | (Raised e, w') \<Rightarrow> (Inl (ToolExecutionError (name tool_call) e), w'))
           | Inr v \<Rightarrow> (Inl (ToolExecutionError (name tool_call) (not_a_mapping tool v)), w)))"

section \<open>agent/prompt.py\<close>

definition SYSTEM_PROMPT :: string where
  "SYSTEM_PROMPT =
     ''You are a helpful CLI assistant with access to various tools. You can help users with:\<newline>'' @
     ''\<newline>'' @
     ''1. **Calculator**: Perform mathematical calculations (basic arithmetic, trigonometry, logarithms)\<newline>'' @
     ''2. **File Operations**: List directories, read files, get file info, create directories\<newline>'' @
     ''3. **Weather**: Get current weather information for any city\<newline>'' @
     ''4. **Web Search**: Search the web for information\<newline>'' @
     ''5. **System Info**: Get system information (CPU, memory, disk, date/time)\<newline>'' @
     ''\<newline>'' @
     ''## How to Use Tools\<newline>'' @
     ''\<newline>'' @
     ''When the user asks you to do something that requires a tool, use the appropriate tool. You can chain multiple tool calls if needed.\<newline>'' @
     ''\<newline>'' @
     ''## Guidelines\<newline>'' @
     ''\<newline>'' @
     ''- Be concise and helpful\<newline>'' @
     ''- When using file operations, always show the results clearly\<newline>'' @
     ''- For calculations, show both the expression and result\<newline>'' @
     ''- If a tool fails, explain the error and suggest alternatives\<newline>'' @
     ''- If you're unsure which tool to use, ask for clarification\<newline>'' @
     ''- You can use multiple tools in sequence to answer complex questions\<newline>'' @
     ''\<newline>'' @
     ''## Response Format\<newline>'' @
     ''\<newline>'' @
     ''- Use markdown formatting for clarity\<newline>'' @
     ''- Use code blocks for file contents, code, or technical output\<newline>'' @
     ''- Use bullet points for lists\<newline>'' @
     ''- Keep responses focused and relevant\<newline>'' @
     ''\<newline>'' @
     ''Remember: You're running as a CLI tool, so keep responses appropriately formatted for terminal display.''"

section \<open>agent/core.py: the agent loop\<close>

text \<open>
  The provider: \<open>chat\<close> answers a response or raises an \<open>LLMError\<close> (\<open>Inl\<close>, its
  \<open>str(e)\<close>), the one exception the providers of this repository raise; \<open>chat_stream\<close>
  yields chunks and may then raise. Both may change the world.
\<close>

record 'w LLMProvider =
  chat :: "Message list \<Rightarrow> pyval list \<Rightarrow> 'w \<Rightarrow> (string + LLMResponse) \<times> 'w"
  chat_stream :: "Message list \<Rightarrow> 'w \<Rightarrow> (string list \<times> string option) \<times> 'w"

record AgentResponse =
  response_content :: string
  tool_calls_made :: "string list"
  tool_results :: "ToolResult list"

record 'w Agent =
  llm :: "'w LLMProvider"
  dispatcher :: "'w ToolDispatcher"
  memory :: ConversationMemory
  max_iterations :: int

text \<open>\<open>config.max_tool_iterations\<close>.\<close>

definition max_tool_iterations :: int where
  "max_tool_iterations = 10"

text \<open>
  \<open>Agent.__init__\<close>, given its dispatcher: \<open>memory or ConversationMemory()\<close> (an empty
  memory is falsy, by its \<open>__len__\<close>), \<open>max_iterations or config.max_tool_iterations\<close>,
  then the system prompt.
\<close>

definition Agent_init ::
  "'w LLMProvider \<Rightarrow> 'w ToolDispatcher \<Rightarrow> ConversationMemory option \<Rightarrow> int option \<Rightarrow> 'w Agent" where
  "Agent_init l d mem maxit =
     \<lparr>llm = l, dispatcher = d,
      memory = set_system_prompt SYSTEM_PROMPT
                 (case mem of
                    None \<Rightarrow> ConversationMemory_new
                  | Some m \<Rightarrow> (if messages m = [] then ConversationMemory_new else m)),
      max_iterations = (case maxit of
                          None \<Rightarrow> max_tool_iterations
                        | Some n \<Rightarrow> (if n = 0 then max_tool_iterations else n))\<rparr>"

text \<open>
  What the loop does to its collaborators, in order: each \<open>llm.chat\<close> call with the
  messages it sends, each \<open>dispatcher.execute\<close> call with the result the loop records,
  and each \<open>llm.chat_stream\<close> call with the messages it sends.
\<close>

datatype event =
    ChatCall "Message list"
  | ExecuteCall ToolCall ToolResult
  | StreamCall "Message list"

text \<open>The state of one turn: the memory, the world, the two local lists, the trace.\<close>

record 'w turn =
  t_memory :: ConversationMemory
  t_world :: 'w
  t_calls_made :: "string list"
  t_results :: "ToolResult list"
  t_trace :: "event list"

text \<open>\<open>tool_call.id or f"call_{iteration}_{tool_call.name}"\<close>.\<close>

definition correlation_id :: "nat \<Rightarrow> ToolCall \<Rightarrow> string" where
  "correlation_id iteration tool_call =
     opt_or (call_id tool_call) (''call_'' @ str_of_nat iteration @ ''_'' @ name tool_call)"

text \<open>\<open>try: result = execute(tool_call) except ToolError as e: ToolResult(False, error=str(e))\<close>.\<close>

definition failed_result :: "ToolError \<Rightarrow> ToolResult" where
  "failed_result e = \<lparr>success = False, data = None, error = Some (str_of_ToolError e)\<rparr>"

definition execute_caught :: "'w ToolDispatcher \<Rightarrow> ToolCall \<Rightarrow> 'w \<Rightarrow> ToolResult \<times> 'w" where
  "execute_caught disp tool_call w =
     (case execute disp tool_call w of
        (Inr result, w') \<Rightarrow> (result, w')
      | (Inl e, w') \<Rightarrow> (failed_result e, w'))"

text \<open>The body of \<open>for tool_call_data in response.tool_calls\<close>, and the loop over it.\<close>

definition process_tool_call :: "'w ToolDispatcher \<Rightarrow> nat \<Rightarrow> tool_call_request \<Rightarrow> 'w turn \<Rightarrow> 'w turn" where
  "process_tool_call disp iteration tool_call_data st =
     (let tool_call = ToolCall_from_dict tool_call_data;
          (result, w') = execute_caught disp tool_call (t_world st)
      in st\<lparr>t_calls_made := t_calls_made st @ [name tool_call],
            t_results := t_results st @ [result],
            t_world := w',
            t_trace := t_trace st @ [ExecuteCall tool_call result],
            t_memory := add_tool_result (to_message result) (correlation_id iteration tool_call)
                          (t_memory st)\<rparr>)"

fun process_tool_calls :: "'w ToolDispatcher \<Rightarrow> nat \<Rightarrow> tool_call_request list \<Rightarrow> 'w turn \<Rightarrow> 'w turn" where
  "process_tool_calls disp iteration [] st = st"
| "process_tool_calls disp iteration (tcd # rest) st =
     process_tool_calls disp iteration rest (process_tool_call disp iteration tcd st)"

definition error_response :: "string \<Rightarrow> 'w turn \<Rightarrow> AgentResponse" where
  "error_response e st =
     \<lparr>response_content = ''Sorry, I encountered an error: '' @ e,
      tool_calls_made = t_calls_made st, tool_results = t_results st\<rparr>"

definition fallback_content :: string where
  "fallback_content = ''I don't have a response.''"

definition exhaustion_message :: string where
  "exhaustion_message =
     ''I apologize, but I've reached the maximum number of tool calls. Please try a simpler request.''"

text \<open>
  One pass of the body of \<open>while iteration < self.max_iterations\<close>, \<open>iteration\<close> already
  incremented: \<open>Inl\<close> when the turn returns, \<open>Inr\<close> when the loop continues. The hooks
  \<open>_on_thinking\<close>, \<open>_on_tool_start\<close> and \<open>_on_tool_end\<close> are unset unless a caller sets them
  and take no part in the control flow; they and the logging are left out.
\<close>

definition loop_body :: "'w Agent \<Rightarrow> nat \<Rightarrow> 'w turn \<Rightarrow> (AgentResponse \<times> 'w turn) + 'w turn" where
  "loop_body agent iteration st =
     (let sent = get_messages (t_memory st);
          (r, w') = chat (llm agent) sent (get_tool_schemas (dispatcher agent)) (t_world st);
          st1 = st\<lparr>t_world := w', t_trace := t_trace st @ [ChatCall sent]\<rparr>
      in case r of
           Inl e \<Rightarrow> Inl (error_response e st1, st1)
         | Inr response \<Rightarrow>
             if has_tool_calls response
             then Inr (process_tool_calls (dispatcher agent) iteration (llm_tool_calls response)
                         (st1\<lparr>t_memory :=
                                 add_assistant_message (str_or (llm_content response) [])
                                   (Some (map Request (llm_tool_calls response)))
                                   (t_memory st1)\<rparr>))
             else (let final_content = str_or (llm_content response) fallback_content;
                       st2 = st1\<lparr>t_memory := add_assistant_message final_content None (t_memory st1)\<rparr>
                   in Inl (\<lparr>response_content = final_content,
                            tool_calls_made = t_calls_made st2,
                            tool_results = t_results st2\<rparr>, st2)))"

function run_loop :: "'w Agent \<Rightarrow> nat \<Rightarrow> 'w turn \<Rightarrow> AgentResponse \<times> 'w turn" where
  "run_loop agent iteration st =
     (if int iteration < max_iterations agent
      then (case loop_body agent (Suc iteration) st of
              Inl done \<Rightarrow> done
            | Inr st' \<Rightarrow> run_loop agent (Suc iteration) st')
      else (\<lparr>response_content = exhaustion_message,
             tool_calls_made = t_calls_made st,
             tool_results = t_results st\<rparr>, st))"
  by pat_completeness auto
termination
  by (relation "measure (\<lambda>(agent, iteration, st). nat (max_iterations agent - int iteration))") auto

text \<open>\<open>Agent.run\<close>: the response, and the turn's final state (memory, world, trace).\<close>

definition run :: "'w Agent \<Rightarrow> string \<Rightarrow> 'w \<Rightarrow> AgentResponse \<times> 'w turn" where
  "run agent user_message w =
     run_loop agent 0
       \<lparr>t_memory = add_user_message user_message (memory agent), t_world = w,
        t_calls_made = [], t_results = [], t_trace = []\<rparr>"

definition set_memory :: "ConversationMemory \<Rightarrow> 'w Agent \<Rightarrow> 'w Agent" where
  "set_memory m agent =
     (let agent1 = agent\<lparr>memory := m\<rparr>
      in if opt_or (system_prompt (memory agent1)) [] = []
         then agent1\<lparr>memory := set_system_prompt SYSTEM_PROMPT (memory agent1)\<rparr>
         else agent1)"

text \<open>
  \<open>Agent.run_stream\<close>: the same rounds, with no \<open>try\<close> around \<open>llm.chat\<close> and no local
  lists (those of the turn state are filled by the shared loop over the tool calls and
  never read). The outcome is the chunks yielded and the \<open>LLMError\<close> that left the
  generator, if one did.
\<close>

definition stream_exhaustion_message :: string where
  "stream_exhaustion_message =
     ''I apologize, but I've reached the maximum number of tool calls.''"

definition stream_body ::
  "'w Agent \<Rightarrow> nat \<Rightarrow> 'w turn \<Rightarrow> ((string list \<times> string option) \<times> 'w turn) + 'w turn" where
  "stream_body agent iteration st =
     (let sent = get_messages (t_memory st);
          (r, w') = chat (llm agent) sent (get_tool_schemas (dispatcher agent)) (t_world st);
          st1 = st\<lparr>t_world := w', t_trace := t_trace st @ [ChatCall sent]\<rparr>
      in case r of
           Inl e \<Rightarrow> Inl (([], Some e), st1)
         | Inr response \<Rightarrow>
             if has_tool_calls response
             then Inr (process_tool_calls (dispatcher agent) iteration (llm_tool_calls response)
                         (st1\<lparr>t_memory :=
                                 add_assistant_message (str_or (llm_content response) [])
                                   (Some (map Request (llm_tool_calls response)))
                                   (t_memory st1)\<rparr>))
             else (let sent2 = get_messages (t_memory st1);
                       ((chunks, raised), w2) = chat_stream (llm agent) sent2 (t_world st1);
                       st2 = st1\<lparr>t_world := w2, t_trace := t_trace st1 @ [StreamCall sent2]\<rparr>
                   in case raised of
                        Some e \<Rightarrow> Inl ((chunks, Some e), st2)
                      | None \<Rightarrow>
                          Inl ((chunks, None),
                               st2\<lparr>t_memory :=
                                     add_assistant_message
                                       (str_or (concat chunks) fallback_content) None
                                       (t_memory st2)\<rparr>)))"

function stream_loop :: "'w Agent \<Rightarrow> nat \<Rightarrow> 'w turn \<Rightarrow> (string list \<times> string option) \<times> 'w turn" where
  "stream_loop agent iteration st =
     (if int iteration < max_iterations agent
      then (case stream_body agent (Suc iteration) st of
              Inl done \<Rightarrow> done
            | Inr st' \<Rightarrow> stream_loop agent (Suc iteration) st')
      else (([stream_exhaustion_message], None), st))"
  by pat_completeness auto
termination
  by (relation "measure (\<lambda>(agent, iteration, st). nat (max_iterations agent - int iteration))") auto

definition run_stream :: "'w Agent \<Rightarrow> string \<Rightarrow> 'w \<Rightarrow> (string list \<times> string option) \<times> 'w turn" where
  "run_stream agent user_message w =
     stream_loop agent 0
       \<lparr>t_memory = add_user_message user_message (memory agent), t_world = w,
        t_calls_made = [], t_results = [], t_trace = []\<rparr>"

section \<open>Properties of traces and of stored sequences\<close>

text \<open>The model invocations of a trace, and its tool-dispatch rounds: the invocations
  directly followed by a dispatch.\<close>

fun chat_calls :: "event list \<Rightarrow> nat" where
  "chat_calls [] = 0"
| "chat_calls (ChatCall ms # es) = Suc (chat_calls es)"
| "chat_calls (e # es) = chat_calls es"

fun dispatch_rounds :: "event list \<Rightarrow> nat" where
  "dispatch_rounds (ChatCall ms # ExecuteCall c r # es) = Suc (dispatch_rounds es)"
| "dispatch_rounds (e # es) = dispatch_rounds es"
| "dispatch_rounds [] = 0"

fun executed_names :: "event list \<Rightarrow> string list" where
  "executed_names [] = []"
| "executed_names (ExecuteCall c r # es) = name c # executed_names es"
| "executed_names (e # es) = executed_names es"

fun executed_results :: "event list \<Rightarrow> ToolResult list" where
  "executed_results [] = []"
| "executed_results (ExecuteCall c r # es) = r # executed_results es"
| "executed_results (e # es) = executed_results es"



text \<open>
  The ids that the tool-call requests of a message carry themselves: those of the requests
  in the \<open>tool_calls\<close> of an assistant message, as \<open>ToolCall.from_dict\<close> reads them.
\<close>

fun item_ids :: "tool_call_item \<Rightarrow> string list" where
  "item_ids (Request r) =
     (case call_id (ToolCall_from_dict r) of None \<Rightarrow> [] | Some i \<Rightarrow> [i])"
| "item_ids other = []"

definition request_ids :: "Message \<Rightarrow> string list" where
  "request_ids msg =
     (if role msg = ASSISTANT
      then (case tool_calls msg of None \<Rightarrow> [] | Some tcs \<Rightarrow> concat (map item_ids tcs))
      else [])"

text \<open>
  Every tool message carries an id that exactly one request of the assistant messages
  stored strictly before it carries.
\<close>

definition tool_results_correlated :: "Message list \<Rightarrow> bool" where
  "tool_results_correlated msgs =
     list_all
       (\<lambda>k. role (msgs ! k) = TOOL \<longrightarrow>
          (case tool_call_id (msgs ! k) of
             None \<Rightarrow> False
           | Some cid \<Rightarrow> count_list (concat (map request_ids (take k msgs))) cid = 1))
       [0..<length msgs]"

text \<open>
  The id under which the result of a request is stored in iteration \<open>i\<close> of a turn: the
  id the request carries, if it carries a non-empty one, and otherwise the text
  \<open>call_\<close>, the iteration in decimal, \<open>_\<close>, the tool's name.
\<close>

definition expected_id :: "nat \<Rightarrow> tool_call_request \<Rightarrow> string" where
  "expected_id i r =
     (case call_id (ToolCall_from_dict r) of
        None \<Rightarrow> ''call_'' @ str_of_nat i @ ''_'' @ name (ToolCall_from_dict r)
      | Some s \<Rightarrow>
          (if s = [] then ''call_'' @ str_of_nat i @ ''_'' @ name (ToolCall_from_dict r) else s))"

fun requests_in :: "tool_call_item list \<Rightarrow> tool_call_request list" where
  "requests_in [] = []"
| "requests_in (Request r # tcs) = r # requests_in tcs"
| "requests_in (Unknown s # tcs) = requests_in tcs"

text \<open>
  Reading a stored sequence turn by turn. The state is the number of assistant messages
  with tool calls seen since the last user message (the iteration of the turn that stored
  the latest of them) and the requests of the latest assistant message. A user message
  starts a turn; an assistant message with tool calls starts the next iteration; a tool
  message must carry the id expected, in that iteration, for one of the requests of the
  latest assistant message, or the reading fails.
\<close>

fun scan_turns ::
  "nat \<times> tool_call_request list \<Rightarrow> Message list \<Rightarrow> (nat \<times> tool_call_request list) option" where
  "scan_turns s [] = Some s"
| "scan_turns (i, reqs) (m # ms) =
     (case role m of
        USER \<Rightarrow> scan_turns (0, []) ms
      | SYSTEM \<Rightarrow> scan_turns (i, reqs) ms
      | ASSISTANT \<Rightarrow>
          (case tool_calls m of
             None \<Rightarrow> scan_turns (i, []) ms
           | Some tcs \<Rightarrow> scan_turns (Suc i, requests_in tcs) ms)
      | TOOL \<Rightarrow>
          (if list_ex (\<lambda>r. tool_call_id m = Some (expected_id i r)) reqs
           then scan_turns (i, reqs) ms
           else None))"

text \<open>
  Every tool message comes after an assistant message of its turn, the latest one with
  tool calls, that holds a request for which its id is the expected one.
\<close>

definition tool_results_answered :: "Message list \<Rightarrow> bool" where
  "tool_results_answered msgs = (scan_turns (0, []) msgs \<noteq> None)"

text \<open>The last stored message, if any, is not an assistant message.\<close>

definition last_not_assistant :: "ConversationMemory \<Rightarrow> bool" where
  "last_not_assistant m = (messages m = [] \<or> role (last (messages m)) \<noteq> ASSISTANT)"

text \<open>A provider that answers every invocation with a response that requests a tool.\<close>

definition always_requests :: "'w Agent \<Rightarrow> bool" where
  "always_requests agent =
     (\<forall>msgs schemas w. \<exists>response w'.
         chat (llm agent) msgs schemas w = (Inr response, w') \<and> llm_tool_calls response \<noteq> [])"

section \<open>Example collaborators\<close>

text \<open>
  A world that counts the model invocations and the tool executions; a stand-in for
  \<open>CalculatorTool\<close> that evaluates the one expression \<open>2+2\<close> and answers any other
  call as the tool answers a missing expression; a dispatcher that registers it, with a
  \<open>json.loads\<close> that knows one text; a provider that answers from a script, one entry
  per invocation, then plain content.
\<close>

definition calculator_tool :: "(nat \<times> nat) Tool" where
  "calculator_tool =
     \<lparr>tool_name = ''calculator'',
      get_schema = \<lparr>schema_name = ''calculator'',
                    schema_description = ''Evaluate mathematical expressions'',
                    schema_parameters = PDict []\<rparr>,
      tool_execute = (\<lambda>kwargs (c, t).
                        (Returned
                           (if map_of kwargs ''expression'' = Some (PStr ''2+2'')
                            then \<lparr>success = True, data = Some ''2+2 = 4'', error = None\<rparr>
                            else \<lparr>success = False, data = None,
                                  error = Some ''No expression provided''\<rparr>),
                         (c, Suc t))),
      execute_qualname = ''src.tools.calculator.CalculatorTool.execute''\<rparr>"

definition example_dispatcher :: "(nat \<times> nat) ToolDispatcher" where
  "example_dispatcher =
     \<lparr>registry = [(''calculator'', calculator_tool)],
      json_loads = (\<lambda>s. if s = ''{}'' then Loaded (PDict []) else JSONDecodeError)\<rparr>"

definition scripted_llm :: "(string + LLMResponse) list \<Rightarrow> (nat \<times> nat) LLMProvider" where
  "scripted_llm script =
     \<lparr>chat = (\<lambda>msgs schemas (c, t).
                (if c < length script then script ! c
                 else Inr \<lparr>llm_content = ''done'', llm_tool_calls = [], finish_reason = None\<rparr>,
                 (Suc c, t))),
      chat_stream = (\<lambda>msgs (c, t). (([''do'', ''ne''], None), (c, t)))\<rparr>"

text \<open>
  A calculator request as a plain dict without id, the same request as the client's
  object, and a request with an id for a tool that is not registered.
\<close>

definition calculator_call :: tool_call_request where
  "calculator_call =
     PlainDict
       \<lparr>tc_function = Some \<lparr>fn_name = Some ''calculator'',
                             fn_arguments = Some (PDict [(''expression'', PStr ''2+2'')])\<rparr>,
        tc_name = None, tc_arguments = None, tc_id = None, tc_extra = []\<rparr>"

definition calculator_object :: tool_call_request where
  "calculator_object =
     OllamaObject (FunctionObject ''calculator'' (PDict [(''expression'', PStr ''2+2'')]))"

definition unknown_call :: tool_call_request where
  "unknown_call =
     PlainDict
       \<lparr>tc_function = Some \<lparr>fn_name = Some ''translate'', fn_arguments = Some (PDict [])\<rparr>,
        tc_name = None, tc_arguments = None, tc_id = Some ''c7'', tc_extra = []\<rparr>"

definition requesting :: "tool_call_request list \<Rightarrow> string + LLMResponse" where
  "requesting tcs = Inr \<lparr>llm_content = [], llm_tool_calls = tcs, finish_reason = None\<rparr>"

definition answering :: "string \<Rightarrow> string + LLMResponse" where
  "answering c = Inr \<lparr>llm_content = c, llm_tool_calls = [], finish_reason = None\<rparr>"

definition example_agent :: "(string + LLMResponse) list \<Rightarrow> int \<Rightarrow> int \<Rightarrow> (nat \<times> nat) Agent" where
  "example_agent script bound maxit =
     \<lparr>llm = scripted_llm script, dispatcher = example_dispatcher,
      memory = \<lparr>messages = [], system_prompt = Some ''Be brief.'', max_messages = bound\<rparr>,
      max_iterations = maxit\<rparr>"

text \<open>A provider that requests the calculator on every response.\<close>

definition tool_hungry_llm :: "(nat \<times> nat) LLMProvider" where
  "tool_hungry_llm =
     \<lparr>chat = (\<lambda>msgs schemas (c, t). (requesting [calculator_call], (Suc c, t))),
      chat_stream = (\<lambda>msgs (c, t). (([], None), (c, t)))\<rparr>"

section \<open>The retained-message bound\<close>

lemma trim_messages:
  "messages (trim_if_needed m) = most_recent (nat (max_messages m)) (messages m)"
proof (cases "0 \<le> max_messages m")
  case True
  then have "nat (int (length (messages m)) - max_messages m)
             = length (messages m) - nat (max_messages m)"
    by linarith
  then show ?thesis
    by (simp add: trim_if_needed_def most_recent_def Let_def)
next
  case False
  then show ?thesis
    by (simp add: trim_if_needed_def most_recent_def Let_def)
qed

lemma trim_other_fields:
  "system_prompt (trim_if_needed m) = system_prompt m"
  "max_messages (trim_if_needed m) = max_messages m"
  by (simp_all add: trim_if_needed_def Let_def)

lemma most_recent_append: "most_recent n (most_recent n xs @ ys) = most_recent n (xs @ ys)"
proof -
  have "length xs + length ys - (length xs - n + n) + (length xs - n)
        = length xs + length ys - n"
    by arith
  then show ?thesis
    by (simp add: most_recent_def)
qed

lemma length_most_recent: "length (most_recent n xs) = min n (length xs)"
  by (simp add: most_recent_def)

lemma apply_append_messages:
  "messages (apply_append op m)
   = most_recent (nat (max_messages m)) (messages m @ [appended_message op])"
  by (cases op)
     (simp_all add: add_user_message_def add_assistant_message_def add_tool_result_def
        trim_messages)

lemma apply_append_other_fields:
  "system_prompt (apply_append op m) = system_prompt m"
  "max_messages (apply_append op m) = max_messages m"
  by (cases op; simp add: add_user_message_def add_assistant_message_def add_tool_result_def
        trim_other_fields)+

lemma apply_appends_other_fields:
  "system_prompt (apply_appends ops m) = system_prompt m
   \<and> max_messages (apply_appends ops m) = max_messages m"
  by (induction ops arbitrary: m) (simp_all add: apply_append_other_fields)

lemma apply_appends_messages:
  "ops \<noteq> [] \<Longrightarrow>
   messages (apply_appends ops m)
   = most_recent (nat (max_messages m)) (messages m @ map appended_message ops)"
proof (induction ops arbitrary: m)
  case Nil
  then show ?case by simp
next
  case (Cons op ops)
  show ?case
  proof (cases "ops = []")
    case True
    then show ?thesis by (simp add: apply_append_messages)
  next
    case False
    from Cons.IH [OF False, of "apply_append op m"]
    show ?thesis
      using most_recent_append [of "nat (max_messages m)"
          "messages m @ [appended_message op]" "map appended_message ops"]
      by (simp add: apply_append_messages apply_append_other_fields)
  qed
qed

text \<open>
  C6. Whatever the memory held, once one or more appends take the stored sequence past the
  bound \<open>N = max_messages\<close>, the memory holds exactly the \<open>N\<close> most recent messages of
  the old sequence followed by the appended ones, in order (none when \<open>N\<close> is negative).
  The system prompt and the bound are untouched, and \<open>get_messages\<close> puts a non-empty
  system prompt in front of these \<open>N\<close> messages: it is not counted.
\<close>

theorem trim_keeps_most_recent:
  assumes "ops \<noteq> []"
    and "max_messages m < int (length (messages m) + length ops)"
  shows "messages (apply_appends ops m)
           = most_recent (nat (max_messages m)) (messages m @ map appended_message ops)
         \<and> length (messages (apply_appends ops m)) = nat (max_messages m)
         \<and> system_prompt (apply_appends ops m) = system_prompt m
         \<and> max_messages (apply_appends ops m) = max_messages m
         \<and> (\<forall>p. system_prompt m = Some p \<and> p \<noteq> [] \<longrightarrow>
               get_messages (apply_appends ops m)
               = Message_system p # messages (apply_appends ops m))"
proof -
  have l: "length (messages (apply_appends ops m)) = nat (max_messages m)"
    using assms by (simp add: apply_appends_messages length_most_recent)
  show ?thesis
    using assms(1) l
    by (simp add: apply_appends_messages apply_appends_other_fields get_messages_def)
qed

theorem trim_keeps_most_recent_witness:
  "messages (apply_appends [AddUser ''a'', AddAssistant ''b'' None, AddToolResult ''c'' ''x'']
               \<lparr>messages = [Message_user ''old''], system_prompt = Some ''p'', max_messages = 2\<rparr>)
     = [Message_assistant ''b'' None, Message_tool_result ''c'' ''x'']
   \<and> get_messages (apply_appends [AddUser ''a'', AddAssistant ''b'' None, AddToolResult ''c'' ''x'']
               \<lparr>messages = [Message_user ''old''], system_prompt = Some ''p'', max_messages = 2\<rparr>)
     = [Message_system ''p'', Message_assistant ''b'' None, Message_tool_result ''c'' ''x'']"
proof -
  let ?ops = "[AddUser ''a'', AddAssistant ''b'' None, AddToolResult ''c'' ''x'']"
  let ?m = "\<lparr>messages = [Message_user ''old''], system_prompt = Some ''p'', max_messages = 2\<rparr>"
  have h1: "?ops \<noteq> []" by simp
  have h2: "max_messages ?m < int (length (messages ?m) + length ?ops)" by simp
  from trim_keeps_most_recent [OF h1 h2]
  show ?thesis by (simp add: most_recent_def)
qed

section \<open>Serialization round trip\<close>

lemma MessageRole_of_role_value: "MessageRole_of (role_value r) = Some r"
  by (cases r) (simp_all add: MessageRole_of_def)

lemma message_round_trip:
  "message_from_dict (message_to_dict msg)
   = Inr (msg\<lparr>tool_calls := serialize_tool_calls (tool_calls msg)\<rparr>)"
  by (simp add: message_from_dict_def message_to_dict_def MessageRole_of_role_value)

lemma from_dict_loop_round_trip:
  "from_dict_loop (map message_to_dict xs) mem
   = Inr (mem\<lparr>messages := messages mem
            @ map (\<lambda>msg. msg\<lparr>tool_calls := serialize_tool_calls (tool_calls msg)\<rparr>) xs\<rparr>)"
  by (induction xs arbitrary: mem) (simp_all add: message_round_trip)

lemma from_dict_to_dict:
  "from_dict (to_dict m)
   = Inr \<lparr>messages = map (\<lambda>msg. msg\<lparr>tool_calls := serialize_tool_calls (tool_calls msg)\<rparr>)
                        (messages m),
          system_prompt = system_prompt m, max_messages = 100\<rparr>"
  by (simp add: from_dict_def to_dict_def from_dict_loop_round_trip ConversationMemory_new_def)

lemma from_dict_loop_bound:
  "from_dict_loop ds mem = Inr m' \<Longrightarrow> max_messages m' = max_messages mem"
  by (induction ds arbitrary: mem) (auto split: sum.splits)



text \<open>
  C9. Whatever dictionary \<open>from_dict\<close> accepts, the memory it builds has the default bound
  100; \<open>to_dict\<close> writes the same dictionary whatever the bound of the memory is, so the
  bound is neither saved nor restored, and a round trip of any memory yields bound 100.
\<close>

theorem from_dict_default_bound:
  "(from_dict d = Inr m' \<longrightarrow> max_messages m' = 100)
   \<and> to_dict (m\<lparr>max_messages := k\<rparr>) = to_dict m
   \<and> (\<exists>r. from_dict (to_dict m) = Inr r \<and> max_messages r = 100)"
proof -
  have a: "from_dict d = Inr m' \<longrightarrow> max_messages m' = 100"
    by (auto simp: from_dict_def ConversationMemory_new_def dest: from_dict_loop_bound)
  have b: "to_dict (m\<lparr>max_messages := k\<rparr>) = to_dict m"
    by (simp add: to_dict_def)
  have c: "\<exists>r. from_dict (to_dict m) = Inr r \<and> max_messages r = 100"
    by (simp add: from_dict_to_dict)
  from a b c show ?thesis by blast
qed

theorem from_dict_default_bound_witness:
  "from_dict (to_dict \<lparr>messages = [Message_user ''hi''], system_prompt = None, max_messages = 5\<rparr>)
     = Inr \<lparr>messages = [Message_user ''hi''], system_prompt = None, max_messages = 100\<rparr>
   \<and> max_messages \<lparr>messages = [Message_user ''hi''], system_prompt = None, max_messages = 100\<rparr>
     = 100"
proof -
  let ?m = "\<lparr>messages = [Message_user ''hi''], system_prompt = None, max_messages = 5\<rparr>"
  let ?r = "\<lparr>messages = [Message_user ''hi''], system_prompt = None, max_messages = 100\<rparr>"
  have h: "from_dict (to_dict ?m) = Inr ?r"
    by (simp add: from_dict_to_dict Message_user_def serialize_tool_calls_def)
  from from_dict_default_bound [where d = "to_dict ?m" and m' = ?r and m = ?m and k = 5] h
  show ?thesis by simp
qed





section \<open>Agent.set_memory\<close>

lemma SYSTEM_PROMPT_nonempty: "SYSTEM_PROMPT \<noteq> []"
  by (simp add: SYSTEM_PROMPT_def)

text \<open>
  C10. After \<open>set_memory(m)\<close> the agent's memory is \<open>m\<close>, with the default
  \<open>SYSTEM_PROMPT\<close> in place of a system prompt that is \<open>None\<close> or empty and with any other
  system prompt unchanged; the rest of the agent is untouched.
\<close>

theorem set_memory_prompt:
  "memory (set_memory m agent)
   = (if system_prompt m = None \<or> system_prompt m = Some []
      then m\<lparr>system_prompt := Some SYSTEM_PROMPT\<rparr> else m)
   \<and> llm (set_memory m agent) = llm agent
   \<and> dispatcher (set_memory m agent) = dispatcher agent
   \<and> max_iterations (set_memory m agent) = max_iterations agent"
  by (auto simp: set_memory_def Let_def opt_or_def str_or_def set_system_prompt_def split: option.splits)


theorem set_memory_prompt_witness:
  "memory (set_memory \<lparr>messages = [Message_user ''hi''], system_prompt = Some [], max_messages = 7\<rparr>
             (example_agent [] 100 10))
     = \<lparr>messages = [Message_user ''hi''], system_prompt = Some SYSTEM_PROMPT, max_messages = 7\<rparr>
   \<and> memory (set_memory \<lparr>messages = [], system_prompt = Some ''Be kind.'', max_messages = 7\<rparr>
             (example_agent [] 100 10))
     = \<lparr>messages = [], system_prompt = Some ''Be kind.'', max_messages = 7\<rparr>"
  using set_memory_prompt
          [of "\<lparr>messages = [Message_user ''hi''], system_prompt = Some [], max_messages = 7\<rparr>"
              "example_agent [] 100 10"]
        set_memory_prompt
          [of "\<lparr>messages = [], system_prompt = Some ''Be kind.'', max_messages = 7\<rparr>"
              "example_agent [] 100 10"]
  by simp

declare run_loop.simps [simp del]

declare stream_loop.simps [simp del]

section \<open>The agent loop: traces and accumulators\<close>

lemma add_message_messages:
  "messages (add_user_message c m)
   = most_recent (nat (max_messages m)) (messages m @ [Message_user c])"
  "messages (add_assistant_message c tcs m)
   = most_recent (nat (max_messages m)) (messages m @ [Message_assistant c tcs])"
  "messages (add_tool_result c cid m)
   = most_recent (nat (max_messages m)) (messages m @ [Message_tool_result c cid])"
  by (simp_all add: add_user_message_def add_assistant_message_def add_tool_result_def
        trim_messages)

lemma add_message_fields:
  "system_prompt (add_user_message c m) = system_prompt m"
  "max_messages (add_user_message c m) = max_messages m"
  "system_prompt (add_assistant_message c tcs m) = system_prompt m"
  "max_messages (add_assistant_message c tcs m) = max_messages m"
  "system_prompt (add_tool_result c cid m) = system_prompt m"
  "max_messages (add_tool_result c cid m) = max_messages m"
  by (simp_all add: add_user_message_def add_assistant_message_def add_tool_result_def
        trim_other_fields)

lemma process_tool_call_fields:
  "t_trace (process_tool_call disp i d st)
   = t_trace st @ [ExecuteCall (ToolCall_from_dict d)
                     (fst (execute_caught disp (ToolCall_from_dict d) (t_world st)))]"
  "t_calls_made (process_tool_call disp i d st) = t_calls_made st @ [name (ToolCall_from_dict d)]"
  "t_results (process_tool_call disp i d st)
   = t_results st @ [fst (execute_caught disp (ToolCall_from_dict d) (t_world st))]"
  "t_world (process_tool_call disp i d st)
   = snd (execute_caught disp (ToolCall_from_dict d) (t_world st))"
  "t_memory (process_tool_call disp i d st)
   = add_tool_result (to_message (fst (execute_caught disp (ToolCall_from_dict d) (t_world st))))
       (correlation_id i (ToolCall_from_dict d)) (t_memory st)"
  by (simp_all add: process_tool_call_def Let_def split: prod.splits)

lemma executed_names_append: "executed_names (xs @ ys) = executed_names xs @ executed_names ys"
  by (induction xs rule: executed_names.induct) simp_all

lemma executed_results_append:
  "executed_results (xs @ ys) = executed_results xs @ executed_results ys"
  by (induction xs rule: executed_results.induct) simp_all

lemma chat_calls_append: "chat_calls (xs @ ys) = chat_calls xs + chat_calls ys"
  by (induction xs rule: chat_calls.induct) simp_all

lemma dispatch_rounds_append_chat:
  "dispatch_rounds (xs @ ChatCall ms # ys) = dispatch_rounds xs + dispatch_rounds (ChatCall ms # ys)"
  by (induction xs rule: dispatch_rounds.induct) simp_all

lemma process_tool_calls_trace:
  "\<exists>evs. t_trace (process_tool_calls disp i tcds st) = t_trace st @ evs
         \<and> length evs = length tcds
         \<and> (\<forall>e \<in> set evs. \<exists>c r. e = ExecuteCall c r)"
proof (induction tcds arbitrary: st)
  case Nil
  then show ?case by simp
next
  case (Cons d tcds)
  from Cons.IH [of "process_tool_call disp i d st"]
  obtain evs where e: "t_trace (process_tool_calls disp i tcds (process_tool_call disp i d st))
      = t_trace (process_tool_call disp i d st) @ evs"
    "length evs = length tcds" "\<forall>e \<in> set evs. \<exists>c r. e = ExecuteCall c r"
    by blast
  let ?e = "ExecuteCall (ToolCall_from_dict d)
                     (fst (execute_caught disp (ToolCall_from_dict d) (t_world st)))"
  have "t_trace (process_tool_calls disp i (d # tcds) st) = t_trace st @ (?e # evs)"
    using e(1) by (simp add: process_tool_call_fields)
  moreover have "length (?e # evs) = length (d # tcds)" using e(2) by simp
  moreover have "\<forall>e \<in> set (?e # evs). \<exists>c r. e = ExecuteCall c r" using e(3) by simp
  ultimately show ?case by blast
qed

lemma process_tool_calls_synced:
  "t_calls_made st = executed_names (t_trace st) \<Longrightarrow>
   t_results st = executed_results (t_trace st) \<Longrightarrow>
   t_calls_made (process_tool_calls disp i tcds st)
     = executed_names (t_trace (process_tool_calls disp i tcds st))
   \<and> t_results (process_tool_calls disp i tcds st)
     = executed_results (t_trace (process_tool_calls disp i tcds st))"
  by (induction tcds arbitrary: st)
     (simp_all add: process_tool_call_fields executed_names_append executed_results_append)

lemma only_executes_no_chat:
  "\<forall>e \<in> set evs. \<exists>c r. e = ExecuteCall c r \<Longrightarrow> chat_calls evs = 0 \<and> dispatch_rounds evs = 0"
  by (induction evs) auto

lemma last_most_recent: "most_recent n xs \<noteq> [] \<Longrightarrow> last (most_recent n xs) = last xs"
  by (simp add: most_recent_def last_drop)

lemma process_tool_calls_last:
  "tcds \<noteq> [] \<Longrightarrow> last_not_assistant (t_memory (process_tool_calls disp i tcds st))"
proof (induction tcds arbitrary: st)
  case Nil
  then show ?case by simp
next
  case (Cons d tcds)
  show ?case
  proof (cases "tcds = []")
    case True
    have "messages (t_memory (process_tool_call disp i d st)) = []
          \<or> role (last (messages (t_memory (process_tool_call disp i d st)))) = TOOL"
      using last_most_recent by (fastforce simp add: process_tool_call_fields add_message_messages Message_tool_result_def)
    with True show ?thesis by (auto simp add: last_not_assistant_def)
  next
    case False
    from Cons.IH [OF False] show ?thesis by simp
  qed
qed


lemma loop_body_always_requests:
  assumes "always_requests agent"
  obtains st' ms c r evs where
           "loop_body agent i st = Inr st'"
           "t_trace st' = t_trace st @ ChatCall ms # ExecuteCall c r # evs"
           "\<forall>e \<in> set evs. \<exists>c r. e = ExecuteCall c r"
           "last_not_assistant (t_memory st')"
           "t_calls_made st = executed_names (t_trace st) \<and> t_results st = executed_results (t_trace st)
              \<longrightarrow> t_calls_made st' = executed_names (t_trace st') \<and> t_results st' = executed_results (t_trace st')"
proof -
  let ?sent = "get_messages (t_memory st)"
  from assms obtain response w' where
    c: "chat (llm agent) ?sent (get_tool_schemas (dispatcher agent)) (t_world st) = (Inr response, w')"
    and ne: "llm_tool_calls response \<noteq> []"
    unfolding always_requests_def by blast
  let ?st1 = "st\<lparr>t_world := w', t_trace := t_trace st @ [ChatCall ?sent]\<rparr>"
  let ?st2 = "?st1\<lparr>t_memory := add_assistant_message (str_or (llm_content response) [])
                                   (Some (map Request (llm_tool_calls response)))
                                   (t_memory ?st1)\<rparr>"
  let ?st' = "process_tool_calls (dispatcher agent) i (llm_tool_calls response) ?st2"
  have lb: "loop_body agent i st = Inr ?st'"
    using c ne by (simp add: loop_body_def Let_def has_tool_calls_def)
  from process_tool_calls_trace [of "dispatcher agent" i "llm_tool_calls response" ?st2]
  obtain evs where e: "t_trace ?st' = t_trace ?st2 @ evs" "length evs = length (llm_tool_calls response)"
    "\<forall>e \<in> set evs. \<exists>c r. e = ExecuteCall c r"
    by blast
  from e(2) ne obtain e0 evs' where ev: "evs = e0 # evs'" by (cases evs) auto
  with e(3) obtain c0 r0 where e0: "e0 = ExecuteCall c0 r0" by auto
  have tr: "t_trace ?st' = t_trace st @ ChatCall ?sent # ExecuteCall c0 r0 # evs'"
    using e(1) ev e0 by simp
  have rest: "\<forall>e \<in> set evs'. \<exists>c r. e = ExecuteCall c r" using e(3) ev by simp
  have la: "last_not_assistant (t_memory ?st')" using ne by (rule process_tool_calls_last)
  have sy: "t_calls_made st = executed_names (t_trace st) \<and> t_results st = executed_results (t_trace st)
              \<longrightarrow> t_calls_made ?st' = executed_names (t_trace ?st') \<and> t_results ?st' = executed_results (t_trace ?st')"
  proof
    assume a: "t_calls_made st = executed_names (t_trace st) \<and> t_results st = executed_results (t_trace st)"
    have "t_calls_made ?st2 = executed_names (t_trace ?st2)" "t_results ?st2 = executed_results (t_trace ?st2)"
      using a by (simp_all add: executed_names_append executed_results_append)
    then show "t_calls_made ?st' = executed_names (t_trace ?st') \<and> t_results ?st' = executed_results (t_trace ?st')"
      by (rule process_tool_calls_synced)
  qed
  from lb tr rest la sy show ?thesis by (rule that)
qed

lemma run_loop_always_requests:
  "always_requests agent \<Longrightarrow>
         t_calls_made st = executed_names (t_trace st) \<Longrightarrow>
         t_results st = executed_results (t_trace st) \<Longrightarrow>
         last_not_assistant (t_memory st) \<Longrightarrow>
         response_content (fst (run_loop agent i st)) = exhaustion_message
       \<and> tool_calls_made (fst (run_loop agent i st)) = executed_names (t_trace (snd (run_loop agent i st)))
       \<and> tool_results (fst (run_loop agent i st)) = executed_results (t_trace (snd (run_loop agent i st)))
       \<and> chat_calls (t_trace (snd (run_loop agent i st)))
           = chat_calls (t_trace st) + nat (max_iterations agent - int i)
       \<and> dispatch_rounds (t_trace (snd (run_loop agent i st)))
           = dispatch_rounds (t_trace st) + nat (max_iterations agent - int i)
       \<and> last_not_assistant (t_memory (snd (run_loop agent i st)))"
proof (induction agent i st rule: run_loop.induct)
  case (1 agent iteration st)
  show ?case
  proof (cases "int iteration < max_iterations agent")
    case False
    then show ?thesis
      using "1.prems" by (simp add: run_loop.simps [of agent iteration st])
  next
    case True
    obtain st' ms c r evs where
      lb: "loop_body agent (Suc iteration) st = Inr st'"
      and tr: "t_trace st' = t_trace st @ ChatCall ms # ExecuteCall c r # evs"
      and ex: "\<forall>e \<in> set evs. \<exists>c r. e = ExecuteCall c r"
      and la: "last_not_assistant (t_memory st')"
      and sy: "t_calls_made st = executed_names (t_trace st) \<and> t_results st = executed_results (t_trace st)
              \<longrightarrow> t_calls_made st' = executed_names (t_trace st') \<and> t_results st' = executed_results (t_trace st')"
      by (rule loop_body_always_requests [OF "1.prems"(1), of "Suc iteration" st])
    have eq: "run_loop agent iteration st = run_loop agent (Suc iteration) st'"
      using True lb by (simp add: run_loop.simps [of agent iteration st])
    from sy "1.prems"(2,3) have sy': "t_calls_made st' = executed_names (t_trace st')"
      "t_results st' = executed_results (t_trace st')" by simp_all
    note ih = "1.IH" [OF True lb "1.prems"(1) sy' la]
    have cc: "chat_calls (t_trace st') = chat_calls (t_trace st) + 1"
      using tr only_executes_no_chat [OF ex] by (simp add: chat_calls_append)
    have dr: "dispatch_rounds (t_trace st') = dispatch_rounds (t_trace st) + 1"
      using tr only_executes_no_chat [OF ex] by (simp add: dispatch_rounds_append_chat)
    have n: "nat (max_iterations agent - int iteration) = 1 + nat (max_iterations agent - int (Suc iteration))"
      using True by simp
    show ?thesis
      using ih cc dr n by (simp add: eq)
  qed
qed

text \<open>
  C2. When the provider requests a tool call on every response, \<open>Agent.run\<close> with
  \<open>max_iterations = N\<close> invokes the model exactly \<open>N\<close> times (none for \<open>N \<le> 0\<close>), runs
  exactly \<open>N\<close> tool-dispatch rounds, and returns the fixed exhaustion message with the names
  and the results of all the dispatched calls, in order. The exhaustion message is not
  appended: the last stored message, if any, is not an assistant message (it is the last
  tool result, or the user message when no round ran).
\<close>

theorem exhaustion_after_max_iterations:
  assumes "always_requests agent"
  shows "response_content (fst (run agent user_message w)) = exhaustion_message
       \<and> chat_calls (t_trace (snd (run agent user_message w))) = nat (max_iterations agent)
       \<and> dispatch_rounds (t_trace (snd (run agent user_message w))) = nat (max_iterations agent)
       \<and> tool_calls_made (fst (run agent user_message w))
           = executed_names (t_trace (snd (run agent user_message w)))
       \<and> tool_results (fst (run agent user_message w))
           = executed_results (t_trace (snd (run agent user_message w)))
       \<and> last_not_assistant (t_memory (snd (run agent user_message w)))"
proof -
  let ?st = "\<lparr>t_memory = add_user_message user_message (memory agent), t_world = w,
        t_calls_made = [], t_results = [], t_trace = []\<rparr>"
  have la: "last_not_assistant (t_memory ?st)"
    using last_most_recent [of "nat (max_messages (memory agent))" "messages (memory agent) @ [Message_user user_message]"]
    by (auto simp add: last_not_assistant_def add_message_messages Message_user_def)
  from run_loop_always_requests [OF assms, of ?st 0] la
  show ?thesis by (simp add: run_def)
qed


theorem exhaustion_after_max_iterations_witness:
  "always_requests \<lparr>llm = tool_hungry_llm, dispatcher = example_dispatcher,
                     memory = ConversationMemory_new, max_iterations = 3\<rparr>
   \<and> response_content
         (fst (run \<lparr>llm = tool_hungry_llm, dispatcher = example_dispatcher,
                    memory = ConversationMemory_new, max_iterations = 3\<rparr> ''hi'' (0, 0)))
       = exhaustion_message
   \<and> chat_calls
         (t_trace (snd (run \<lparr>llm = tool_hungry_llm, dispatcher = example_dispatcher,
                             memory = ConversationMemory_new, max_iterations = 3\<rparr> ''hi'' (0, 0))))
       = 3
   \<and> dispatch_rounds
         (t_trace (snd (run \<lparr>llm = tool_hungry_llm, dispatcher = example_dispatcher,
                             memory = ConversationMemory_new, max_iterations = 3\<rparr> ''hi'' (0, 0))))
       = 3"
proof -
  let ?agent = "\<lparr>llm = tool_hungry_llm, dispatcher = example_dispatcher,
                 memory = ConversationMemory_new, max_iterations = 3\<rparr>"
  have h: "always_requests ?agent"
    by (simp add: always_requests_def tool_hungry_llm_def requesting_def calculator_call_def)
  from exhaustion_after_max_iterations [OF h, of "''hi''" "(0, 0)"] h
  show ?thesis by simp
qed

section \<open>One pass of the loop, case by case\<close>

lemma loop_body_final:
  assumes "chat (llm agent) (get_messages (t_memory st)) (get_tool_schemas (dispatcher agent)) (t_world st)
           = (Inr response, w')"
    and "llm_tool_calls response = []"
  shows "loop_body agent i st
         = Inl (\<lparr>response_content = str_or (llm_content response) fallback_content,
                 tool_calls_made = t_calls_made st, tool_results = t_results st\<rparr>,
                st\<lparr>t_world := w',
                   t_trace := t_trace st @ [ChatCall (get_messages (t_memory st))],
                   t_memory := add_assistant_message (str_or (llm_content response) fallback_content)
                                 None (t_memory st)\<rparr>)"
  using assms by (simp add: loop_body_def Let_def has_tool_calls_def)

lemma loop_body_requests:
  assumes "chat (llm agent) (get_messages (t_memory st)) (get_tool_schemas (dispatcher agent)) (t_world st)
           = (Inr response, w')"
    and "llm_tool_calls response \<noteq> []"
  shows "loop_body agent i st
         = Inr (process_tool_calls (dispatcher agent) i (llm_tool_calls response)
                  (st\<lparr>t_world := w',
                      t_trace := t_trace st @ [ChatCall (get_messages (t_memory st))],
                      t_memory := add_assistant_message (str_or (llm_content response) [])
                                    (Some (map Request (llm_tool_calls response)))
                                    (t_memory st)\<rparr>))"
  using assms by (simp add: loop_body_def Let_def has_tool_calls_def)

lemma loop_body_llm_error:
  assumes "chat (llm agent) (get_messages (t_memory st)) (get_tool_schemas (dispatcher agent)) (t_world st)
           = (Inl e, w')"
  shows "loop_body agent i st
         = Inl (\<lparr>response_content = ''Sorry, I encountered an error: '' @ e,
                 tool_calls_made = t_calls_made st, tool_results = t_results st\<rparr>,
                st\<lparr>t_world := w',
                   t_trace := t_trace st @ [ChatCall (get_messages (t_memory st))]\<rparr>)"
  using assms by (simp add: loop_body_def Let_def error_response_def)

lemma loop_body_trace:
  "case loop_body agent i st of
     Inl (resp, st') \<Rightarrow> t_trace st' = t_trace st @ [ChatCall (get_messages (t_memory st))]
   | Inr st' \<Rightarrow> \<exists>evs. t_trace st' = t_trace st @ ChatCall (get_messages (t_memory st)) # evs"
proof -
  obtain r w' where c: "chat (llm agent) (get_messages (t_memory st))
      (get_tool_schemas (dispatcher agent)) (t_world st) = (r, w')"
    by (cases "chat (llm agent) (get_messages (t_memory st))
      (get_tool_schemas (dispatcher agent)) (t_world st)")
  show ?thesis
  proof (cases r)
    case (Inl e)
    with c show ?thesis by (simp add: loop_body_llm_error)
  next
    case (Inr response)
    show ?thesis
    proof (cases "llm_tool_calls response = []")
      case True
      with c Inr show ?thesis by (simp add: loop_body_final)
    next
      case False
      let ?st1 = "st\<lparr>t_world := w',
                      t_trace := t_trace st @ [ChatCall (get_messages (t_memory st))],
                      t_memory := add_assistant_message (str_or (llm_content response) [])
                                    (Some (map Request (llm_tool_calls response)))
                                    (t_memory st)\<rparr>"
      from process_tool_calls_trace [of "dispatcher agent" i "llm_tool_calls response" ?st1]
      obtain evs where "t_trace (process_tool_calls (dispatcher agent) i (llm_tool_calls response) ?st1)
                        = t_trace ?st1 @ evs" by blast
      with c Inr False show ?thesis by (simp add: loop_body_requests)
    qed
  qed
qed

lemma run_loop_trace_extends:
  "\<exists>evs. t_trace (snd (run_loop agent i st)) = t_trace st @ evs"
proof (induction agent i st rule: run_loop.induct)
  case (1 agent iteration st)
  show ?case
  proof (cases "int iteration < max_iterations agent")
    case False
    then show ?thesis by (simp add: run_loop.simps [of agent iteration st])
  next
    case True
    show ?thesis
    proof (cases "loop_body agent (Suc iteration) st")
      case (Inl fin)
      obtain resp st' where d: "fin = (resp, st')" by (cases fin)
      from loop_body_trace [where agent = agent and i = "Suc iteration" and st = st] Inl d
      have "t_trace st' = t_trace st @ [ChatCall (get_messages (t_memory st))]" by simp
      with True Inl d show ?thesis by (simp add: run_loop.simps [of agent iteration st])
    next
      case (Inr st')
      from loop_body_trace [where agent = agent and i = "Suc iteration" and st = st] Inr
      obtain evs where e: "t_trace st' = t_trace st @ ChatCall (get_messages (t_memory st)) # evs"
        by auto
      from "1.IH" [OF True Inr] obtain evs' where
        "t_trace (snd (run_loop agent (Suc iteration) st')) = t_trace st' @ evs'" by blast
      with e True Inr show ?thesis by (simp add: run_loop.simps [of agent iteration st])
    qed
  qed
qed

lemma run_loop_first_chat:
  assumes "int i < max_iterations agent"
  shows "\<exists>evs. t_trace (snd (run_loop agent i st))
               = t_trace st @ ChatCall (get_messages (t_memory st)) # evs"
proof (cases "loop_body agent (Suc i) st")
  case (Inl fin)
  obtain resp st' where d: "fin = (resp, st')" by (cases fin)
  from loop_body_trace [where agent = agent and i = "Suc i" and st = st] Inl d
  have "t_trace st' = t_trace st @ [ChatCall (get_messages (t_memory st))]" by simp
  with assms Inl d show ?thesis by (simp add: run_loop.simps [of agent i st])
next
  case (Inr st')
  from loop_body_trace [where agent = agent and i = "Suc i" and st = st] Inr
  obtain evs where e: "t_trace st' = t_trace st @ ChatCall (get_messages (t_memory st)) # evs"
    by auto
  from run_loop_trace_extends [of agent "Suc i" st'] obtain evs' where
    "t_trace (snd (run_loop agent (Suc i) st')) = t_trace st' @ evs'" by blast
  with e assms Inr show ?thesis by (simp add: run_loop.simps [of agent i st])
qed

section \<open>A final answer on the first response\<close>

text \<open>
  C3, as stated, fails where the bound trims: with \<open>max_messages = 1\<close> the turn returns
  the content, yet the memory holds the assistant message alone; the user message is gone
  and the stored sequence grew by one.
\<close>

theorem final_answer_counterexample:
  "messages (memory (example_agent [answering ''Hello!''] 1 10)) = []
   \<and> fst (run (example_agent [answering ''Hello!''] 1 10) ''hi'' (0, 0))
     = \<lparr>response_content = ''Hello!'', tool_calls_made = [], tool_results = []\<rparr>
   \<and> messages (t_memory (snd (run (example_agent [answering ''Hello!''] 1 10) ''hi'' (0, 0))))
     = [Message_assistant ''Hello!'' None]
   \<and> messages (t_memory (snd (run (example_agent [answering ''Hello!''] 1 10) ''hi'' (0, 0))))
     \<noteq> messages (memory (example_agent [answering ''Hello!''] 1 10))
       @ [Message_user ''hi'', Message_assistant ''Hello!'' None]"
  by code_simp

text \<open>
  C3, amended. When the first response declares no tool calls, \<open>run\<close> returns its content
  (the fallback sentinel if the content is empty) with empty \<open>tool_calls_made\<close> and
  \<open>tool_results\<close>, after exactly two appends: the user message, then the assistant message
  with the returned content. The memory then holds the \<open>max_messages\<close> most recent of the
  old messages followed by these two; when the old messages leave room for two more, it
  gains exactly these two.
\<close>

theorem final_answer_first_response:
  assumes "0 < max_iterations agent"
    and "chat (llm agent) (get_messages (add_user_message user_message (memory agent)))
           (get_tool_schemas (dispatcher agent)) w = (Inr response, w')"
    and "llm_tool_calls response = []"
  shows "fst (run agent user_message w)
           = \<lparr>response_content = (if llm_content response = [] then fallback_content
                                  else llm_content response),
              tool_calls_made = [], tool_results = []\<rparr>
       \<and> t_memory (snd (run agent user_message w))
           = add_assistant_message (response_content (fst (run agent user_message w))) None
               (add_user_message user_message (memory agent))
       \<and> messages (t_memory (snd (run agent user_message w)))
           = most_recent (nat (max_messages (memory agent)))
               (messages (memory agent)
                @ [Message_user user_message,
                   Message_assistant (response_content (fst (run agent user_message w))) None])
       \<and> (int (length (messages (memory agent))) + 2 \<le> max_messages (memory agent) \<longrightarrow>
            messages (t_memory (snd (run agent user_message w)))
            = messages (memory agent)
              @ [Message_user user_message,
                 Message_assistant (response_content (fst (run agent user_message w))) None])"
proof -
  let ?st = "\<lparr>t_memory = add_user_message user_message (memory agent), t_world = w,
        t_calls_made = [], t_results = [], t_trace = []\<rparr>"
  let ?c = "str_or (llm_content response) fallback_content"
  have lb: "loop_body agent (Suc 0) ?st
            = Inl (\<lparr>response_content = ?c, tool_calls_made = [], tool_results = []\<rparr>,
                   ?st\<lparr>t_world := w',
                      t_trace := [ChatCall (get_messages (t_memory ?st))],
                      t_memory := add_assistant_message ?c None (t_memory ?st)\<rparr>)"
    using loop_body_final [of agent ?st response w' "Suc 0"] assms(2,3) by simp
  have r: "run agent user_message w
           = (\<lparr>response_content = ?c, tool_calls_made = [], tool_results = []\<rparr>,
                   ?st\<lparr>t_world := w',
                      t_trace := [ChatCall (get_messages (t_memory ?st))],
                      t_memory := add_assistant_message ?c None (t_memory ?st)\<rparr>)"
    using assms(1) lb by (simp add: run_def run_loop.simps [of agent 0 ?st])
  have m: "messages (add_assistant_message ?c None (add_user_message user_message (memory agent)))
           = most_recent (nat (max_messages (memory agent)))
               (messages (memory agent) @ [Message_user user_message, Message_assistant ?c None])"
    using most_recent_append [of "nat (max_messages (memory agent))"
            "messages (memory agent) @ [Message_user user_message]" "[Message_assistant ?c None]"]
    by (simp add: add_message_messages add_message_fields)
  have n: "int (length (messages (memory agent))) + 2 \<le> max_messages (memory agent) \<Longrightarrow>
           most_recent (nat (max_messages (memory agent)))
               (messages (memory agent) @ [Message_user user_message, Message_assistant ?c None])
           = messages (memory agent) @ [Message_user user_message, Message_assistant ?c None]"
    by (simp add: most_recent_def)
  show ?thesis
    using m n by (simp add: r str_or_def)
qed

theorem final_answer_first_response_witness:
  "fst (run (example_agent [answering ''Hello!''] 100 10) ''hi'' (0, 0))
     = \<lparr>response_content = ''Hello!'', tool_calls_made = [], tool_results = []\<rparr>
   \<and> messages (t_memory (snd (run (example_agent [answering ''Hello!''] 100 10) ''hi'' (0, 0))))
     = [Message_user ''hi'', Message_assistant ''Hello!'' None]"
proof -
  let ?agent = "example_agent [answering ''Hello!''] 100 10"
  let ?response = "\<lparr>llm_content = ''Hello!'', llm_tool_calls = [], finish_reason = None\<rparr>"
  have h1: "0 < max_iterations ?agent"
    by (simp add: example_agent_def)
  have h2: "chat (llm ?agent) (get_messages (add_user_message ''hi'' (memory ?agent)))
              (get_tool_schemas (dispatcher ?agent)) (0, 0) = (Inr ?response, (Suc 0, 0))"
    by (simp add: example_agent_def scripted_llm_def answering_def)
  have h3: "llm_tool_calls ?response = []"
    by simp
  have h4: "int (length (messages (memory ?agent))) + 2 \<le> max_messages (memory ?agent)"
    by (simp add: example_agent_def)
  have h5: "messages (memory ?agent) = []"
    by (simp add: example_agent_def)
  note t = final_answer_first_response [OF h1 h2 h3]
  from t have a: "fst (run ?agent ''hi'' (0, 0))
     = \<lparr>response_content = ''Hello!'', tool_calls_made = [], tool_results = []\<rparr>"
    by simp
  from t h4 have "messages (t_memory (snd (run ?agent ''hi'' (0, 0))))
            = messages (memory ?agent)
              @ [Message_user ''hi'',
                 Message_assistant (response_content (fst (run ?agent ''hi'' (0, 0)))) None]"
    by blast
  with a h5 show ?thesis by simp
qed

section \<open>Tool errors\<close>
lemma add_tool_result_eq:
  "add_tool_result c cid m
   = m\<lparr>messages := most_recent (nat (max_messages m))
                       (messages m @ [\<lparr>role = TOOL, content = c, tool_calls = None,
                                      tool_call_id = Some cid\<rparr>])\<rparr>"
proof -
  have "messages (add_tool_result c cid m)
        = most_recent (nat (max_messages m))
            (messages m @ [\<lparr>role = TOOL, content = c, tool_calls = None, tool_call_id = Some cid\<rparr>])"
    by (simp add: add_message_messages Message_tool_result_def)
  moreover have "system_prompt (add_tool_result c cid m) = system_prompt m"
    "max_messages (add_tool_result c cid m) = max_messages m"
    by (simp_all add: add_message_fields)
  ultimately show ?thesis by simp
qed

lemma correlation_id_expected:
  "correlation_id i (ToolCall_from_dict r) = expected_id i r"
  by (simp add: correlation_id_def expected_id_def opt_or_def str_or_def split: option.splits)

lemma not_found_text_explicit:
  "not_found_text disp n
   = ''Tool '' @ [CHR 0x27] @ n @ [CHR 0x27] @ '' not found. Available tools: ''
     @ join '', '' (map fst (registry disp))"
  by (simp add: not_found_text_def apostrophe_def get_available_tools_def list_tools_def)

lemma execute_unregistered:
  "registry_get (registry disp) (name tc) = None \<Longrightarrow>
   execute disp tc w
   = (Inl (ToolNotFoundError
             (''Tool '' @ [CHR 0x27] @ name tc @ [CHR 0x27] @ '' not found. Available tools: ''
              @ join '', '' (map fst (registry disp)))), w)"
  by (simp add: execute_def not_found_text_explicit)

lemma execute_caught_unregistered:
  "registry_get (registry disp) (name tc) = None \<Longrightarrow>
   execute_caught disp tc w
   = (\<lparr>success = False, data = None,
       error = Some (''Tool not found: ''
                     @ ''Tool '' @ [CHR 0x27] @ name tc @ [CHR 0x27]
                     @ '' not found. Available tools: ''
                     @ join '', '' (map fst (registry disp)))\<rparr>, w)"
  by (simp add: execute_caught_def execute_unregistered failed_result_def)

lemma process_tool_calls_trace_grows:
  "set (t_trace st) \<subseteq> set (t_trace (process_tool_calls disp i tcds st))"
  using process_tool_calls_trace [of disp i tcds st] by auto

lemma process_tool_calls_results_grow:
  "set (t_results st) \<subseteq> set (t_results (process_tool_calls disp i tcds st))"
proof (induction tcds arbitrary: st)
  case Nil
  show ?case by simp
next
  case (Cons x tcds)
  have "set (t_results st) \<subseteq> set (t_results (process_tool_call disp i x st))"
    by (auto simp add: process_tool_call_fields)
  also have "\<dots> \<subseteq> set (t_results (process_tool_calls disp i tcds
                                         (process_tool_call disp i x st)))"
    by (rule Cons.IH)
  finally show ?case by simp
qed

lemma process_tool_calls_logs_failure:
  "d \<in> set tcds \<Longrightarrow>
   registry_get (registry disp) (name (ToolCall_from_dict d)) = None \<Longrightarrow>
   ExecuteCall (ToolCall_from_dict d) (fst (execute_caught disp (ToolCall_from_dict d) w))
     \<in> set (t_trace (process_tool_calls disp i tcds st))
   \<and> fst (execute_caught disp (ToolCall_from_dict d) w)
     \<in> set (t_results (process_tool_calls disp i tcds st))"
proof (induction tcds arbitrary: st)
  case Nil
  then show ?case by simp
next
  case (Cons x tcds)
  show ?case
  proof (cases "d = x")
    case True
    have same: "fst (execute_caught disp (ToolCall_from_dict d) (t_world st))
                = fst (execute_caught disp (ToolCall_from_dict d) w)"
      using Cons.prems(2) by (simp add: execute_caught_unregistered)
    have "ExecuteCall (ToolCall_from_dict d) (fst (execute_caught disp (ToolCall_from_dict d) w))
          \<in> set (t_trace (process_tool_call disp i x st))"
      "fst (execute_caught disp (ToolCall_from_dict d) w)
          \<in> set (t_results (process_tool_call disp i x st))"
      using True same by (simp_all add: process_tool_call_fields)
    then show ?thesis
      using process_tool_calls_trace_grows [of "process_tool_call disp i x st" disp i tcds]
        process_tool_calls_results_grow [of "process_tool_call disp i x st" disp i tcds]
      by auto
  next
    case False
    with Cons.prems(1) have "d \<in> set tcds" by simp
    from Cons.IH [OF this Cons.prems(2)] show ?thesis by simp
  qed
qed

lemma run_loop_exhausted:
  "\<not> int i < max_iterations agent \<Longrightarrow>
   run_loop agent i st
   = (\<lparr>response_content = exhaustion_message, tool_calls_made = t_calls_made st,
       tool_results = t_results st\<rparr>, st)"
  by (simp add: run_loop.simps [of agent i st])

text \<open>
  C5, as stated, fails in the last iteration the bound allows: with \<open>max_iterations = 1\<close>
  and a first response that requests an unregistered tool, the failure is recorded and no
  tool runs, but no further model invocation follows; the turn ends with the exhaustion
  message after the one invocation.
\<close>

theorem unregistered_tool_counterexample:
  "response_content (fst (run (example_agent [requesting [unknown_call]] 100 1) ''hi'' (0, 0)))
     = ''I apologize, but I've reached the maximum number of tool calls. Please try a simpler request.''
   \<and> tool_results (fst (run (example_agent [requesting [unknown_call]] 100 1) ''hi'' (0, 0)))
     = [\<lparr>success = False, data = None,
         error = Some ''Tool not found: Tool 'translate' not found. Available tools: calculator''\<rparr>]
   \<and> chat_calls (t_trace (snd (run (example_agent [requesting [unknown_call]] 100 1) ''hi'' (0, 0))))
     = 1
   \<and> t_world (snd (run (example_agent [requesting [unknown_call]] 100 1) ''hi'' (0, 0)))
     = (1, 0)"
  by code_simp

text \<open>
  C5, amended. For a tool call whose name is not registered: the dispatcher raises
  \<open>ToolNotFoundError\<close>, whose message lists the registered names; the loop over the
  requested calls records the name and a \<open>ToolResult\<close> with \<open>success = False\<close> and that
  message as its error, appends the tool message \<open>Error: Tool not found: ...\<close> under the
  id of the call, and goes on with the remaining calls. A round that holds such a call is
  followed by a model invocation on the messages of the memory as the round left it when
  the iteration bound allows another pass; in the last pass the bound allows, the turn
  ends with the exhaustion message, the failed result among its results, and no further
  model invocation.
\<close>

theorem unregistered_tool_is_reported:
  assumes "registry_get (registry (dispatcher agent)) (name (ToolCall_from_dict d)) = None"
  shows "execute (dispatcher agent) (ToolCall_from_dict d) w
           = (Inl (ToolNotFoundError (''Tool '' @ [CHR 0x27] @ name (ToolCall_from_dict d) @ [CHR 0x27] @ '' not found. Available tools: ''
 @ join '', '' (map fst (registry (dispatcher agent))))), w)
       \<and> process_tool_calls (dispatcher agent) i (d # rest) st
           = process_tool_calls (dispatcher agent) i rest
               (st\<lparr>t_calls_made := t_calls_made st @ [name (ToolCall_from_dict d)],
                   t_results := t_results st @ [\<lparr>success = False, data = None,
 error = Some (''Tool not found: '' @ ''Tool '' @ [CHR 0x27] @ name (ToolCall_from_dict d) @ [CHR 0x27] @ '' not found. Available tools: ''
 @ join '', '' (map fst (registry (dispatcher agent))))\<rparr>],
                   t_trace := t_trace st @ [ExecuteCall (ToolCall_from_dict d) (\<lparr>success = False, data = None,
 error = Some (''Tool not found: '' @ ''Tool '' @ [CHR 0x27] @ name (ToolCall_from_dict d) @ [CHR 0x27] @ '' not found. Available tools: ''
 @ join '', '' (map fst (registry (dispatcher agent))))\<rparr>)],
                   t_memory := (t_memory st)
                     \<lparr>messages := most_recent (nat (max_messages (t_memory st)))
                                    (messages (t_memory st) @ [\<lparr>role = TOOL,
 content = ''Error: Tool not found: '' @ ''Tool '' @ [CHR 0x27] @ name (ToolCall_from_dict d) @ [CHR 0x27] @ '' not found. Available tools: ''
 @ join '', '' (map fst (registry (dispatcher agent))),
 tool_calls = None, tool_call_id = Some (expected_id i d)\<rparr>])\<rparr>\<rparr>)
       \<and> (\<forall>response w'.
             chat (llm agent) (get_messages (t_memory st)) (get_tool_schemas (dispatcher agent))
               (t_world st) = (Inr response, w')
             \<and> d \<in> set (llm_tool_calls response) \<and> int (Suc i) < max_iterations agent
             \<longrightarrow> (\<exists>st2 evs.
                    loop_body agent (Suc i) st = Inr st2
                  \<and> ExecuteCall (ToolCall_from_dict d) (\<lparr>success = False, data = None,
 error = Some (''Tool not found: '' @ ''Tool '' @ [CHR 0x27] @ name (ToolCall_from_dict d) @ [CHR 0x27] @ '' not found. Available tools: ''
 @ join '', '' (map fst (registry (dispatcher agent))))\<rparr>) \<in> set (t_trace st2)
                  \<and> t_trace (snd (run_loop agent i st))
                    = t_trace st2 @ ChatCall (get_messages (t_memory st2)) # evs))
       \<and> (\<forall>response w'.
             chat (llm agent) (get_messages (t_memory st)) (get_tool_schemas (dispatcher agent))
               (t_world st) = (Inr response, w')
             \<and> d \<in> set (llm_tool_calls response)
             \<and> int i < max_iterations agent \<and> \<not> int (Suc i) < max_iterations agent
             \<longrightarrow> response_content (fst (run_loop agent i st)) = exhaustion_message
                 \<and> \<lparr>success = False, data = None,
 error = Some (''Tool not found: '' @ ''Tool '' @ [CHR 0x27] @ name (ToolCall_from_dict d) @ [CHR 0x27] @ '' not found. Available tools: ''
 @ join '', '' (map fst (registry (dispatcher agent))))\<rparr> \<in> set (tool_results (fst (run_loop agent i st)))
                 \<and> chat_calls (t_trace (snd (run_loop agent i st)))
                   = Suc (chat_calls (t_trace st)))"
proof -
  let ?tc = "ToolCall_from_dict d"
  let ?nf = "''Tool '' @ [CHR 0x27] @ name (?tc) @ [CHR 0x27] @ '' not found. Available tools: ''
 @ join '', '' (map fst (registry (dispatcher agent)))"
  let ?failed = "\<lparr>success = False, data = None, error = Some (''Tool not found: '' @ ?nf)\<rparr>"
  have ec: "\<And>w. execute_caught (dispatcher agent) ?tc w = (?failed, w)"
    using assms by (simp add: execute_caught_unregistered)
  have a: "execute (dispatcher agent) ?tc w = (Inl (ToolNotFoundError ?nf), w)"
    using assms by (rule execute_unregistered)
  have b: "process_tool_call (dispatcher agent) i d st
           = st\<lparr>t_calls_made := t_calls_made st @ [name ?tc],
                   t_results := t_results st @ [?failed],
                   t_trace := t_trace st @ [ExecuteCall ?tc ?failed],
                   t_memory := (t_memory st)
                     \<lparr>messages := most_recent (nat (max_messages (t_memory st)))
                                    (messages (t_memory st)
                                     @ [\<lparr>role = TOOL,
                                         content = ''Error: Tool not found: '' @ ?nf,
                                         tool_calls = None,
                                         tool_call_id = Some (expected_id i d)\<rparr>])\<rparr>\<rparr>"
    by (simp add: process_tool_call_def ec Let_def to_message_def add_tool_result_eq
          correlation_id_expected)
  have round: "\<And>response w'.
      chat (llm agent) (get_messages (t_memory st)) (get_tool_schemas (dispatcher agent))
        (t_world st) = (Inr response, w') \<Longrightarrow>
      d \<in> set (llm_tool_calls response) \<Longrightarrow>
      \<exists>st2. loop_body agent (Suc i) st = Inr st2
          \<and> ExecuteCall ?tc ?failed \<in> set (t_trace st2)
          \<and> ?failed \<in> set (t_results st2)
          \<and> chat_calls (t_trace st2) = Suc (chat_calls (t_trace st))"
  proof -
    fix response w'
    assume ch: "chat (llm agent) (get_messages (t_memory st))
        (get_tool_schemas (dispatcher agent)) (t_world st) = (Inr response, w')"
      and mem: "d \<in> set (llm_tool_calls response)"
    from mem have ne: "llm_tool_calls response \<noteq> []" by auto
    let ?st1 = "st\<lparr>t_world := w',
                      t_trace := t_trace st @ [ChatCall (get_messages (t_memory st))],
                      t_memory := add_assistant_message (str_or (llm_content response) [])
                                    (Some (map Request (llm_tool_calls response)))
                                    (t_memory st)\<rparr>"
    let ?st2 = "process_tool_calls (dispatcher agent) (Suc i) (llm_tool_calls response) ?st1"
    have lb: "loop_body agent (Suc i) st = Inr ?st2"
      using ch ne by (rule loop_body_requests)
    from process_tool_calls_logs_failure [OF mem assms, of w "Suc i" ?st1] ec [of w]
    have lg: "ExecuteCall ?tc ?failed \<in> set (t_trace ?st2)" "?failed \<in> set (t_results ?st2)"
      by simp_all
    from process_tool_calls_trace [of "dispatcher agent" "Suc i" "llm_tool_calls response" ?st1]
    obtain evs where e: "t_trace ?st2 = t_trace ?st1 @ evs"
      "\<forall>e \<in> set evs. \<exists>c r. e = ExecuteCall c r"
      by blast
    have cc: "chat_calls (t_trace ?st2) = Suc (chat_calls (t_trace st))"
      using e(1) only_executes_no_chat [OF e(2)] by (simp add: chat_calls_append)
    from lb lg cc show "\<exists>st2. loop_body agent (Suc i) st = Inr st2
          \<and> ExecuteCall ?tc ?failed \<in> set (t_trace st2)
          \<and> ?failed \<in> set (t_results st2)
          \<and> chat_calls (t_trace st2) = Suc (chat_calls (t_trace st))"
      by blast
  qed
  have c: "\<forall>response w'.
             chat (llm agent) (get_messages (t_memory st)) (get_tool_schemas (dispatcher agent))
               (t_world st) = (Inr response, w')
             \<and> d \<in> set (llm_tool_calls response) \<and> int (Suc i) < max_iterations agent
             \<longrightarrow> (\<exists>st2 evs.
                    loop_body agent (Suc i) st = Inr st2
                  \<and> ExecuteCall ?tc ?failed \<in> set (t_trace st2)
                  \<and> t_trace (snd (run_loop agent i st))
                    = t_trace st2 @ ChatCall (get_messages (t_memory st2)) # evs)"
  proof (intro allI impI, elim conjE)
    fix response w'
    assume ch: "chat (llm agent) (get_messages (t_memory st))
        (get_tool_schemas (dispatcher agent)) (t_world st) = (Inr response, w')"
      and mem: "d \<in> set (llm_tool_calls response)"
      and it: "int (Suc i) < max_iterations agent"
    from round [OF ch mem] obtain st2 where
      lb: "loop_body agent (Suc i) st = Inr st2"
      and lg: "ExecuteCall ?tc ?failed \<in> set (t_trace st2)"
      by blast
    have rl: "run_loop agent i st = run_loop agent (Suc i) st2"
      using it lb by (simp add: run_loop.simps [of agent i st])
    from run_loop_first_chat [OF it, of st2] obtain evs where
      "t_trace (snd (run_loop agent (Suc i) st2))
       = t_trace st2 @ ChatCall (get_messages (t_memory st2)) # evs" by blast
    with rl have "t_trace (snd (run_loop agent i st))
       = t_trace st2 @ ChatCall (get_messages (t_memory st2)) # evs" by simp
    with lb lg show "\<exists>st2 evs.
                    loop_body agent (Suc i) st = Inr st2
                  \<and> ExecuteCall ?tc ?failed \<in> set (t_trace st2)
                  \<and> t_trace (snd (run_loop agent i st))
                    = t_trace st2 @ ChatCall (get_messages (t_memory st2)) # evs"
      by blast
  qed
  have d: "\<forall>response w'.
             chat (llm agent) (get_messages (t_memory st)) (get_tool_schemas (dispatcher agent))
               (t_world st) = (Inr response, w')
             \<and> d \<in> set (llm_tool_calls response)
             \<and> int i < max_iterations agent \<and> \<not> int (Suc i) < max_iterations agent
             \<longrightarrow> response_content (fst (run_loop agent i st)) = exhaustion_message
                 \<and> ?failed \<in> set (tool_results (fst (run_loop agent i st)))
                 \<and> chat_calls (t_trace (snd (run_loop agent i st)))
                   = Suc (chat_calls (t_trace st))"
  proof (intro allI impI, elim conjE)
    fix response w'
    assume ch: "chat (llm agent) (get_messages (t_memory st))
        (get_tool_schemas (dispatcher agent)) (t_world st) = (Inr response, w')"
      and mem: "d \<in> set (llm_tool_calls response)"
      and it: "int i < max_iterations agent"
      and last: "\<not> int (Suc i) < max_iterations agent"
    from round [OF ch mem] obtain st2 where
      lb: "loop_body agent (Suc i) st = Inr st2"
      and lr: "?failed \<in> set (t_results st2)"
      and cc: "chat_calls (t_trace st2) = Suc (chat_calls (t_trace st))"
      by blast
    have rl: "run_loop agent i st = run_loop agent (Suc i) st2"
      using it lb by (simp add: run_loop.simps [of agent i st])
    with run_loop_exhausted [OF last, of st2] lr cc
    show "response_content (fst (run_loop agent i st)) = exhaustion_message
                 \<and> ?failed \<in> set (tool_results (fst (run_loop agent i st)))
                 \<and> chat_calls (t_trace (snd (run_loop agent i st)))
                   = Suc (chat_calls (t_trace st))"
      by simp
  qed
  from a b c d show ?thesis by simp
qed

theorem unregistered_tool_is_reported_witness:
  "registry_get (registry (dispatcher (example_agent [requesting [unknown_call]] 100 10)))
     (name (ToolCall_from_dict unknown_call)) = None
   \<and> execute example_dispatcher (ToolCall_from_dict unknown_call) (0, 0)
     = (Inl (ToolNotFoundError ''Tool 'translate' not found. Available tools: calculator''), (0, 0))
   \<and> (\<exists>st2 evs.
         loop_body (example_agent [requesting [unknown_call]] 100 10) (Suc 0)
           \<lparr>t_memory = add_user_message ''hi'' (memory (example_agent [requesting [unknown_call]] 100 10)),
            t_world = (0, 0), t_calls_made = [], t_results = [], t_trace = []\<rparr> = Inr st2
       \<and> t_trace (snd (run (example_agent [requesting [unknown_call]] 100 10) ''hi'' (0, 0)))
         = t_trace st2 @ ChatCall (get_messages (t_memory st2)) # evs)
   \<and> messages (t_memory (snd (run (example_agent [requesting [unknown_call]] 100 10) ''hi'' (0, 0))))
     = [\<lparr>role = USER, content = ''hi'', tool_calls = None, tool_call_id = None\<rparr>,
        \<lparr>role = ASSISTANT, content = [], tool_calls = Some [Request unknown_call],
         tool_call_id = None\<rparr>,
        \<lparr>role = TOOL,
         content = ''Error: Tool not found: Tool 'translate' not found. Available tools: calculator'',
         tool_calls = None, tool_call_id = Some ''c7''\<rparr>,
        \<lparr>role = ASSISTANT, content = ''done'', tool_calls = None, tool_call_id = None\<rparr>]
   \<and> tool_results (fst (run (example_agent [requesting [unknown_call]] 100 10) ''hi'' (0, 0)))
     = [\<lparr>success = False, data = None,
         error = Some ''Tool not found: Tool 'translate' not found. Available tools: calculator''\<rparr>]
   \<and> response_content (fst (run (example_agent [requesting [unknown_call]] 100 1) ''hi'' (0, 0)))
     = ''I apologize, but I've reached the maximum number of tool calls. Please try a simpler request.''
   \<and> \<lparr>success = False, data = None,
       error = Some ''Tool not found: Tool 'translate' not found. Available tools: calculator''\<rparr>
     \<in> set (tool_results (fst (run (example_agent [requesting [unknown_call]] 100 1) ''hi'' (0, 0))))
   \<and> chat_calls (t_trace (snd (run (example_agent [requesting [unknown_call]] 100 1) ''hi'' (0, 0))))
     = Suc 0"
proof -
  let ?agent = "example_agent [requesting [unknown_call]] 100 10"
  let ?st = "\<lparr>t_memory = add_user_message ''hi'' (memory ?agent),
            t_world = (0, 0), t_calls_made = [], t_results = [], t_trace = []\<rparr>"
  let ?response = "\<lparr>llm_content = [], llm_tool_calls = [unknown_call], finish_reason = None\<rparr>"
  have h: "registry_get (registry (dispatcher ?agent)) (name (ToolCall_from_dict unknown_call)) = None"
    by code_simp
  note t = unregistered_tool_is_reported [OF h, where w = "(0, 0)" and i = 0 and st = ?st]
  have c: "chat (llm ?agent) (get_messages (t_memory ?st)) (get_tool_schemas (dispatcher ?agent))
             (t_world ?st) = (Inr ?response, (Suc 0, 0))"
    by (simp add: example_agent_def scripted_llm_def requesting_def)
  have m: "unknown_call \<in> set (llm_tool_calls ?response)" by simp
  have i: "int (Suc 0) < max_iterations ?agent" by (simp add: example_agent_def)
  note t3 = t [THEN conjunct2, THEN conjunct2, THEN conjunct1, rule_format, OF conjI [OF c conjI [OF m i]]]
  from t3 obtain st2 evs where
    "loop_body ?agent (Suc 0) ?st = Inr st2"
    "t_trace (snd (run_loop ?agent 0 ?st)) = t_trace st2 @ ChatCall (get_messages (t_memory st2)) # evs"
    by blast
  then have r: "\<exists>st2 evs. loop_body ?agent (Suc 0) ?st = Inr st2
       \<and> t_trace (snd (run ?agent ''hi'' (0, 0)))
         = t_trace st2 @ ChatCall (get_messages (t_memory st2)) # evs"
    by (auto simp add: run_def)
  have nm: "name (ToolCall_from_dict unknown_call) = ''translate''"
    by code_simp
  have rg: "registry (dispatcher ?agent) = [(''calculator'', calculator_tool)]"
    by (simp add: example_agent_def example_dispatcher_def)
  have dp: "dispatcher ?agent = example_dispatcher"
    by (simp add: example_agent_def)
  from t [THEN conjunct1]
  have e: "execute example_dispatcher (ToolCall_from_dict unknown_call) (0, 0)
     = (Inl (ToolNotFoundError ''Tool 'translate' not found. Available tools: calculator''), (0, 0))"
    by (simp add: nm example_dispatcher_def dp)
  have ms: "messages (t_memory (snd (run ?agent ''hi'' (0, 0))))
     = [\<lparr>role = USER, content = ''hi'', tool_calls = None, tool_call_id = None\<rparr>,
        \<lparr>role = ASSISTANT, content = [], tool_calls = Some [Request unknown_call],
         tool_call_id = None\<rparr>,
        \<lparr>role = TOOL,
         content = ''Error: Tool not found: Tool 'translate' not found. Available tools: calculator'',
         tool_calls = None, tool_call_id = Some ''c7''\<rparr>,
        \<lparr>role = ASSISTANT, content = ''done'', tool_calls = None, tool_call_id = None\<rparr>]"
    by code_simp
  have rs: "tool_results (fst (run ?agent ''hi'' (0, 0)))
     = [\<lparr>success = False, data = None,
         error = Some ''Tool not found: Tool 'translate' not found. Available tools: calculator''\<rparr>]"
    by code_simp
  let ?agent1 = "example_agent [requesting [unknown_call]] 100 1"
  let ?st1 = "\<lparr>t_memory = add_user_message ''hi'' (memory ?agent1),
            t_world = (0, 0), t_calls_made = [], t_results = [], t_trace = []\<rparr>"
  have h1: "registry_get (registry (dispatcher ?agent1)) (name (ToolCall_from_dict unknown_call)) = None"
    by code_simp
  note t1 = unregistered_tool_is_reported [OF h1, where w = "(0, 0)" and i = 0 and st = ?st1]
  have c1: "chat (llm ?agent1) (get_messages (t_memory ?st1)) (get_tool_schemas (dispatcher ?agent1))
             (t_world ?st1) = (Inr ?response, (Suc 0, 0))"
    by (simp add: example_agent_def scripted_llm_def requesting_def)
  have i1: "int 0 < max_iterations ?agent1" by (simp add: example_agent_def)
  have l1: "\<not> int (Suc 0) < max_iterations ?agent1" by (simp add: example_agent_def)
  note t4 = t1 [THEN conjunct2, THEN conjunct2, THEN conjunct2, rule_format,
                OF conjI [OF c1 conjI [OF m conjI [OF i1 l1]]]]
  have rg1: "registry (dispatcher ?agent1) = [(''calculator'', calculator_tool)]"
    by (simp add: example_agent_def example_dispatcher_def)
  have ex: "exhaustion_message
     = ''I apologize, but I've reached the maximum number of tool calls. Please try a simpler request.''"
    by (simp add: exhaustion_message_def)
  from t4 [THEN conjunct1]
  have x1: "response_content (fst (run ?agent1 ''hi'' (0, 0)))
     = ''I apologize, but I've reached the maximum number of tool calls. Please try a simpler request.''"
    by (simp add: run_def ex)
  from t4 [THEN conjunct2, THEN conjunct1]
  have x2: "\<lparr>success = False, data = None,
       error = Some ''Tool not found: Tool 'translate' not found. Available tools: calculator''\<rparr>
     \<in> set (tool_results (fst (run ?agent1 ''hi'' (0, 0))))"
    by (simp add: run_def nm rg1)
  from t4 [THEN conjunct2, THEN conjunct2]
  have x3: "chat_calls (t_trace (snd (run ?agent1 ''hi'' (0, 0)))) = Suc 0"
    by (simp add: run_def)
  from h e r ms rs x1 x2 x3 show ?thesis by blast
qed

text \<open>
  A raw string that is not JSON never reaches the tool: \<open>**arguments\<close> on a string raises
  \<open>TypeError\<close>, which leaves the dispatcher as a \<open>ToolExecutionError\<close>; the world is as
  it was.
\<close>

lemma raw_string_never_reaches_tool:
  assumes "registry_get (registry disp) (name tc) = Some tool"
    and "arguments tc = PStr s"
    and "json_loads disp s = JSONDecodeError"
  shows "execute disp tc w = (Inl (ToolExecutionError (name tc) (not_a_mapping tool (PStr s))), w)"
  using assms by (simp add: execute_def resolve_arguments_def)

text \<open>
  C8 fails on the code: the calculator is registered and \<open>2+2\<close> is not JSON, yet
  \<open>execute\<close> raises \<open>ToolExecutionError\<close> and the calculator has not run (the count of
  tool executions is still 0). A string that parses to a JSON object reaches the tool
  (which finds no expression in it), and so does a dict.
\<close>

theorem raw_string_arguments_fail:
  "json_loads example_dispatcher ''2+2'' = JSONDecodeError
   \<and> execute example_dispatcher \<lparr>name = ''calculator'', arguments = PStr ''2+2'', call_id = None\<rparr> (0, 0)
     = (Inl (ToolExecutionError ''calculator''
               (''src.tools.calculator.CalculatorTool.execute() ''
                @ ''argument after ** must be a mapping, not str'')), (0, 0))
   \<and> execute example_dispatcher \<lparr>name = ''calculator'', arguments = PStr ''{}'', call_id = None\<rparr> (0, 0)
     = (Inr \<lparr>success = False, data = None, error = Some ''No expression provided''\<rparr>, (0, Suc 0))
   \<and> execute example_dispatcher
       \<lparr>name = ''calculator'', arguments = PDict [(''expression'', PStr ''2+2'')], call_id = None\<rparr> (0, 0)
     = (Inr \<lparr>success = True, data = Some ''2+2 = 4'', error = None\<rparr>, (0, Suc 0))"
  by code_simp

section \<open>Model failures\<close>

lemma stream_body_llm_error:
  assumes "chat (llm agent) (get_messages (t_memory st)) (get_tool_schemas (dispatcher agent)) (t_world st)
           = (Inl e, w')"
  shows "stream_body agent i st
         = Inl (([], Some e),
                st\<lparr>t_world := w',
                   t_trace := t_trace st @ [ChatCall (get_messages (t_memory st))]\<rparr>)"
  using assms by (simp add: stream_body_def Let_def)

text \<open>
  When \<open>llm.chat\<close> raises an \<open>LLMError\<close> in a pass of the loop, \<open>run\<close> returns at once:
  the content tells the error and the response carries the lists as they stand. In the
  same situation \<open>run_stream\<close> ends at once too, with nothing yielded and the error raised.
\<close>

lemma run_loop_llm_error:
  assumes "int i < max_iterations agent"
    and "chat (llm agent) (get_messages (t_memory st)) (get_tool_schemas (dispatcher agent)) (t_world st)
           = (Inl e, w')"
  shows "run_loop agent i st
         = (\<lparr>response_content = ''Sorry, I encountered an error: '' @ e,
             tool_calls_made = t_calls_made st, tool_results = t_results st\<rparr>,
            st\<lparr>t_world := w',
               t_trace := t_trace st @ [ChatCall (get_messages (t_memory st))]\<rparr>)"
  using assms by (simp add: run_loop.simps [of agent i st] loop_body_llm_error)

lemma stream_loop_llm_error:
  assumes "int i < max_iterations agent"
    and "chat (llm agent) (get_messages (t_memory st)) (get_tool_schemas (dispatcher agent)) (t_world st)
           = (Inl e, w')"
  shows "stream_loop agent i st
         = (([], Some e),
            st\<lparr>t_world := w',
               t_trace := t_trace st @ [ChatCall (get_messages (t_memory st))]\<rparr>)"
  using assms by (simp add: stream_loop.simps [of agent i st] stream_body_llm_error)

text \<open>
  C4 fails on the code for \<open>run_stream\<close>: when \<open>llm.chat\<close> raises an \<open>LLMError\<close> in the
  second pass, after one calculator round, \<open>run_stream\<close> yields nothing and the error
  leaves the generator, while \<open>run\<close> on the same input returns the error as content
  together with the calculator call and its result.
\<close>

theorem run_stream_llm_error_propagates:
  "fst (run_stream (example_agent [requesting [calculator_call], Inl ''Failed to connect to Ollama: timed out''] 100 10)
          ''hi'' (0, 0))
     = ([], Some ''Failed to connect to Ollama: timed out'')
   \<and> fst (run (example_agent [requesting [calculator_call], Inl ''Failed to connect to Ollama: timed out''] 100 10)
          ''hi'' (0, 0))
     = \<lparr>response_content = ''Sorry, I encountered an error: Failed to connect to Ollama: timed out'',
        tool_calls_made = [''calculator''],
        tool_results = [\<lparr>success = True, data = Some ''2+2 = 4'', error = None\<rparr>]\<rparr>"
  by code_simp

section \<open>Tool results and the requests they answer\<close>

text \<open>
  C1, as stated, fails, in two ways. When the model requests the calculator twice in one
  response and gives no ids (the client's objects carry none), both tool messages carry
  the synthesized id \<open>call_1_calculator\<close>: no stored request carries that id, and both
  requests of the round yield it, so the id matches no request exactly once. And trimming
  looks at the length alone: with room for two messages, a turn with one calculator round
  ends with the tool result stored and the assistant message that requested it dropped.
\<close>

theorem tool_results_correlated_counterexample:
  "messages (t_memory (snd (run (example_agent [requesting [calculator_object, calculator_call]] 100 10)
                              ''hi'' (0, 0))))
     = [\<lparr>role = USER, content = ''hi'', tool_calls = None, tool_call_id = None\<rparr>,
        \<lparr>role = ASSISTANT, content = [],
         tool_calls = Some [Request calculator_object, Request calculator_call],
         tool_call_id = None\<rparr>,
        \<lparr>role = TOOL, content = ''2+2 = 4'', tool_calls = None,
         tool_call_id = Some ''call_1_calculator''\<rparr>,
        \<lparr>role = TOOL, content = ''2+2 = 4'', tool_calls = None,
         tool_call_id = Some ''call_1_calculator''\<rparr>,
        \<lparr>role = ASSISTANT, content = ''done'', tool_calls = None, tool_call_id = None\<rparr>]
   \<and> \<not> tool_results_correlated
         (messages (t_memory (snd (run (example_agent [requesting [calculator_object, calculator_call]] 100 10)
                                      ''hi'' (0, 0)))))
   \<and> request_ids \<lparr>role = ASSISTANT, content = [],
                   tool_calls = Some [Request calculator_object, Request calculator_call],
                   tool_call_id = None\<rparr> = []
   \<and> correlation_id 1 (ToolCall_from_dict calculator_object) = ''call_1_calculator''
   \<and> correlation_id 1 (ToolCall_from_dict calculator_call) = ''call_1_calculator''
   \<and> messages (t_memory (snd (run (example_agent [requesting [calculator_object]] 2 10) ''hi'' (0, 0))))
     = [\<lparr>role = TOOL, content = ''2+2 = 4'', tool_calls = None,
         tool_call_id = Some ''call_1_calculator''\<rparr>,
        \<lparr>role = ASSISTANT, content = ''done'', tool_calls = None, tool_call_id = None\<rparr>]
   \<and> \<not> tool_results_correlated
         (messages (t_memory (snd (run (example_agent [requesting [calculator_object]] 2 10)
                                      ''hi'' (0, 0)))))"
  by code_simp

lemma scan_turns_append:
  "scan_turns s (xs @ ys) = (case scan_turns s xs of None \<Rightarrow> None | Some s' \<Rightarrow> scan_turns s' ys)"
proof (induction xs arbitrary: s)
  case Nil
  show ?case by simp
next
  case (Cons m xs)
  obtain i reqs where s: "s = (i, reqs)" by (cases s)
  show ?case
    unfolding s by (simp add: Cons.IH split: MessageRole.splits option.splits)
qed

lemma scan_turns_user:
  "role m = USER \<Longrightarrow> scan_turns s (m # ms) = scan_turns (0, []) ms"
  by (cases s) simp

lemma requests_in_map_Request: "requests_in (map Request rs) = rs"
  by (induction rs) simp_all

lemma answered_append:
  assumes "tool_results_answered xs" and "role m = USER" and "tool_results_answered (m # ys)"
  shows "tool_results_answered (xs @ m # ys)"
proof -
  from assms(1) obtain s where s: "scan_turns (0, []) xs = Some s"
    unfolding tool_results_answered_def by blast
  have "scan_turns (0, []) (xs @ m # ys) = scan_turns s (m # ys)"
    by (simp add: scan_turns_append s)
  also have "\<dots> = scan_turns (0, []) (m # ys)"
    using assms(2) by (simp add: scan_turns_user)
  finally show ?thesis
    using assms(3) by (simp add: tool_results_answered_def)
qed

lemma process_tool_calls_answered:
  assumes "messages (t_memory st) = most_recent (nat (max_messages (t_memory st))) (pre @ cur)"
    and "scan_turns (0, []) cur = Some (i, reqs)"
    and "set tcds \<subseteq> set reqs"
  shows "\<exists>app. messages (t_memory (process_tool_calls disp i tcds st))
                 = most_recent (nat (max_messages (t_memory st))) (pre @ cur @ app)
             \<and> scan_turns (0, []) (cur @ app) = Some (i, reqs)
             \<and> max_messages (t_memory (process_tool_calls disp i tcds st)) = max_messages (t_memory st)
             \<and> length app = length tcds"
  using assms
proof (induction tcds arbitrary: st cur)
  case Nil
  then have "messages (t_memory (process_tool_calls disp i [] st))
                 = most_recent (nat (max_messages (t_memory st))) (pre @ cur @ [])
             \<and> scan_turns (0, []) (cur @ []) = Some (i, reqs)
             \<and> max_messages (t_memory (process_tool_calls disp i [] st)) = max_messages (t_memory st)
             \<and> length ([] :: Message list) = length ([] :: tool_call_request list)"
    by simp
  then show ?case by blast
next
  case (Cons d tcds)
  let ?tc = "ToolCall_from_dict d"
  let ?res = "fst (execute_caught disp ?tc (t_world st))"
  let ?m = "Message_tool_result (to_message ?res) (correlation_id i ?tc)"
  let ?st1 = "process_tool_call disp i d st"
  let ?cur1 = "cur @ [?m]"
  have mm: "max_messages (t_memory ?st1) = max_messages (t_memory st)"
    by (simp add: process_tool_call_fields add_message_fields)
  have m1: "messages (t_memory ?st1) = most_recent (nat (max_messages (t_memory ?st1))) (pre @ ?cur1)"
    using Cons.prems(1) most_recent_append [of "nat (max_messages (t_memory st))" "pre @ cur" "[?m]"]
    by (simp add: process_tool_call_fields add_message_messages add_message_fields)
  from Cons.prems(3) have din: "d \<in> set reqs" by simp
  then have ex: "list_ex (\<lambda>r. tool_call_id ?m = Some (expected_id i r)) reqs"
    by (auto simp add: list_ex_iff Message_tool_result_def correlation_id_expected)
  have "scan_turns (i, reqs) [?m] = Some (i, reqs)"
    using ex by (simp add: Message_tool_result_def)
  then have a1: "scan_turns (0, []) ?cur1 = Some (i, reqs)"
    using Cons.prems(2) by (simp add: scan_turns_append)
  from Cons.prems(3) have rest: "set tcds \<subseteq> set reqs" by simp
  from Cons.IH [OF m1 a1 rest] obtain app where
    app: "messages (t_memory (process_tool_calls disp i tcds ?st1))
            = most_recent (nat (max_messages (t_memory ?st1))) (pre @ ?cur1 @ app)"
         "scan_turns (0, []) (?cur1 @ app) = Some (i, reqs)"
         "max_messages (t_memory (process_tool_calls disp i tcds ?st1)) = max_messages (t_memory ?st1)"
         "length app = length tcds"
    by blast
  have "messages (t_memory (process_tool_calls disp i (d # tcds) st))
                 = most_recent (nat (max_messages (t_memory st))) (pre @ cur @ (?m # app))
             \<and> scan_turns (0, []) (cur @ (?m # app)) = Some (i, reqs)
             \<and> max_messages (t_memory (process_tool_calls disp i (d # tcds) st)) = max_messages (t_memory st)
             \<and> length (?m # app) = length (d # tcds)"
    using app mm by simp
  then show ?case by blast
qed

lemma loop_body_answered:
  assumes "messages (t_memory st) = most_recent (nat (max_messages (t_memory st))) (pre @ cur)"
    and "scan_turns (0, []) cur = Some (i, rq)"
  shows "\<exists>app rq'. messages (t_memory (case loop_body agent (Suc i) st of Inl (resp, st') \<Rightarrow> st' | Inr st' \<Rightarrow> st'))
                 = most_recent (nat (max_messages (t_memory st))) (pre @ cur @ app)
             \<and> scan_turns (0, []) (cur @ app)
                 = Some ((case loop_body agent (Suc i) st of Inl fin \<Rightarrow> i | Inr st' \<Rightarrow> Suc i), rq')
             \<and> max_messages (t_memory (case loop_body agent (Suc i) st of Inl (resp, st') \<Rightarrow> st' | Inr st' \<Rightarrow> st'))
                 = max_messages (t_memory st)
             \<and> length (t_trace st) + length app \<le> length (t_trace (case loop_body agent (Suc i) st of Inl (resp, st') \<Rightarrow> st' | Inr st' \<Rightarrow> st'))"
proof -
  let ?N = "nat (max_messages (t_memory st))"
  obtain r w' where c: "chat (llm agent) (get_messages (t_memory st))
      (get_tool_schemas (dispatcher agent)) (t_world st) = (r, w')"
    by (cases "chat (llm agent) (get_messages (t_memory st))
      (get_tool_schemas (dispatcher agent)) (t_world st)")
  show ?thesis
  proof (cases r)
    case (Inl e)
    with c assms have "messages (t_memory (case loop_body agent (Suc i) st of Inl (resp, st') \<Rightarrow> st' | Inr st' \<Rightarrow> st'))
                 = most_recent ?N (pre @ cur @ [])
             \<and> scan_turns (0, []) (cur @ [])
                 = Some ((case loop_body agent (Suc i) st of Inl fin \<Rightarrow> i | Inr st' \<Rightarrow> Suc i), rq)
             \<and> max_messages (t_memory (case loop_body agent (Suc i) st of Inl (resp, st') \<Rightarrow> st' | Inr st' \<Rightarrow> st'))
                 = max_messages (t_memory st)
             \<and> length (t_trace st) + length ([] :: Message list) \<le> length (t_trace (case loop_body agent (Suc i) st of Inl (resp, st') \<Rightarrow> st' | Inr st' \<Rightarrow> st'))"
      by (simp add: loop_body_llm_error)
    then show ?thesis by blast
  next
    case (Inr response)
    show ?thesis
    proof (cases "llm_tool_calls response = []")
      case True
      let ?m = "Message_assistant (str_or (llm_content response) fallback_content) None"
      have "scan_turns (0, []) (cur @ [?m]) = Some (i, [])"
        using assms(2) by (simp add: scan_turns_append Message_assistant_def)
      moreover have "messages (add_assistant_message (str_or (llm_content response) fallback_content) None (t_memory st))
                     = most_recent ?N (pre @ cur @ [?m])"
        using assms(1) most_recent_append [of ?N "pre @ cur" "[?m]"]
        by (simp add: add_message_messages)
      ultimately have "messages (t_memory (case loop_body agent (Suc i) st of Inl (resp, st') \<Rightarrow> st' | Inr st' \<Rightarrow> st'))
                 = most_recent ?N (pre @ cur @ [?m])
             \<and> scan_turns (0, []) (cur @ [?m])
                 = Some ((case loop_body agent (Suc i) st of Inl fin \<Rightarrow> i | Inr st' \<Rightarrow> Suc i), [])
             \<and> max_messages (t_memory (case loop_body agent (Suc i) st of Inl (resp, st') \<Rightarrow> st' | Inr st' \<Rightarrow> st'))
                 = max_messages (t_memory st)
             \<and> length (t_trace st) + length [?m] \<le> length (t_trace (case loop_body agent (Suc i) st of Inl (resp, st') \<Rightarrow> st' | Inr st' \<Rightarrow> st'))"
        using c Inr True by (simp add: loop_body_final add_message_fields)
      then show ?thesis by blast
    next
      case False
      let ?reqs = "llm_tool_calls response"
      let ?m = "Message_assistant (str_or (llm_content response) []) (Some (map Request ?reqs))"
      let ?st1 = "st\<lparr>t_world := w',
                      t_trace := t_trace st @ [ChatCall (get_messages (t_memory st))],
                      t_memory := add_assistant_message (str_or (llm_content response) [])
                                    (Some (map Request ?reqs)) (t_memory st)\<rparr>"
      let ?cur1 = "cur @ [?m]"
      have mm: "max_messages (t_memory ?st1) = max_messages (t_memory st)"
        by (simp add: add_message_fields)
      have m1: "messages (t_memory ?st1) = most_recent (nat (max_messages (t_memory ?st1))) (pre @ ?cur1)"
        using assms(1) most_recent_append [of ?N "pre @ cur" "[?m]"]
        by (simp add: add_message_messages add_message_fields)
      have a1: "scan_turns (0, []) ?cur1 = Some (Suc i, ?reqs)"
        using assms(2)
        by (simp add: scan_turns_append Message_assistant_def requests_in_map_Request)
      have al: "set ?reqs \<subseteq> set ?reqs" by simp
      from process_tool_calls_answered [OF m1 a1 al, of "dispatcher agent"]
      obtain app where
        app: "messages (t_memory (process_tool_calls (dispatcher agent) (Suc i) ?reqs ?st1))
            = most_recent (nat (max_messages (t_memory ?st1))) (pre @ ?cur1 @ app)"
         "scan_turns (0, []) (?cur1 @ app) = Some (Suc i, ?reqs)"
         "max_messages (t_memory (process_tool_calls (dispatcher agent) (Suc i) ?reqs ?st1))
            = max_messages (t_memory ?st1)"
         "length app = length ?reqs"
        by blast
      from process_tool_calls_trace [of "dispatcher agent" "Suc i" ?reqs ?st1]
      obtain evs where
        "t_trace (process_tool_calls (dispatcher agent) (Suc i) ?reqs ?st1)
         = t_trace ?st1 @ evs" "length evs = length ?reqs"
        by blast
      then have tl: "length (t_trace (process_tool_calls (dispatcher agent) (Suc i) ?reqs ?st1))
                     = Suc (length (t_trace st)) + length ?reqs"
        by simp
      have "messages (t_memory (case loop_body agent (Suc i) st of Inl (resp, st') \<Rightarrow> st' | Inr st' \<Rightarrow> st'))
                 = most_recent ?N (pre @ cur @ (?m # app))
             \<and> scan_turns (0, []) (cur @ (?m # app))
                 = Some ((case loop_body agent (Suc i) st of Inl fin \<Rightarrow> i | Inr st' \<Rightarrow> Suc i), ?reqs)
             \<and> max_messages (t_memory (case loop_body agent (Suc i) st of Inl (resp, st') \<Rightarrow> st' | Inr st' \<Rightarrow> st'))
                 = max_messages (t_memory st)
             \<and> length (t_trace st) + length (?m # app) \<le> length (t_trace (case loop_body agent (Suc i) st of Inl (resp, st') \<Rightarrow> st' | Inr st' \<Rightarrow> st'))"
        using c Inr False app mm tl by (simp add: loop_body_requests)
      then show ?thesis by blast
    qed
  qed
qed

lemma run_loop_answered:
  "messages (t_memory st) = most_recent (nat (max_messages (t_memory st))) (pre @ cur) \<Longrightarrow>
   scan_turns (0, []) cur = Some (i, rq) \<Longrightarrow>
   \<exists>app. messages (t_memory (snd (run_loop agent i st)))
           = most_recent (nat (max_messages (t_memory st))) (pre @ cur @ app)
       \<and> tool_results_answered (cur @ app)
       \<and> length (t_trace st) + length app \<le> length (t_trace (snd (run_loop agent i st)))"
proof (induction agent i st arbitrary: cur rq rule: run_loop.induct)
  case (1 agent iteration st)
  show ?case
  proof (cases "int iteration < max_iterations agent")
    case False
    with "1.prems" have "messages (t_memory (snd (run_loop agent iteration st)))
           = most_recent (nat (max_messages (t_memory st))) (pre @ cur @ [])
       \<and> tool_results_answered (cur @ [])
       \<and> length (t_trace st) + length ([] :: Message list)
           \<le> length (t_trace (snd (run_loop agent iteration st)))"
      by (simp add: run_loop.simps [of agent iteration st] tool_results_answered_def)
    then show ?thesis by blast
  next
    case True
    from loop_body_answered [OF "1.prems", of agent] obtain app rq' where
      app: "messages (t_memory (case loop_body agent (Suc iteration) st of Inl (resp, st') \<Rightarrow> st' | Inr st' \<Rightarrow> st'))
                 = most_recent (nat (max_messages (t_memory st))) (pre @ cur @ app)"
        "scan_turns (0, []) (cur @ app)
           = Some ((case loop_body agent (Suc iteration) st of Inl fin \<Rightarrow> iteration | Inr st' \<Rightarrow> Suc iteration), rq')"
        "max_messages (t_memory (case loop_body agent (Suc iteration) st of Inl (resp, st') \<Rightarrow> st' | Inr st' \<Rightarrow> st'))
                 = max_messages (t_memory st)"
        "length (t_trace st) + length app
         \<le> length (t_trace (case loop_body agent (Suc iteration) st of Inl (resp, st') \<Rightarrow> st' | Inr st' \<Rightarrow> st'))"
      by blast
    show ?thesis
    proof (cases "loop_body agent (Suc iteration) st")
      case (Inl fin)
      obtain resp st' where d: "fin = (resp, st')" by (cases fin)
      from app(2) have "tool_results_answered (cur @ app)"
        by (simp add: tool_results_answered_def)
      with app Inl d True show ?thesis
        by (auto simp add: run_loop.simps [of agent iteration st])
    next
      case (Inr st')
      from app Inr have m: "messages (t_memory st')
          = most_recent (nat (max_messages (t_memory st'))) (pre @ (cur @ app))"
        and sc: "scan_turns (0, []) (cur @ app) = Some (Suc iteration, rq')"
        and mm: "max_messages (t_memory st') = max_messages (t_memory st)"
        and tl: "length (t_trace st) + length app \<le> length (t_trace st')"
        by simp_all
      from "1.IH" [OF True Inr m sc] obtain app' where
        "messages (t_memory (snd (run_loop agent (Suc iteration) st')))
           = most_recent (nat (max_messages (t_memory st'))) (pre @ (cur @ app) @ app')"
        "tool_results_answered ((cur @ app) @ app')"
        "length (t_trace st') + length app' \<le> length (t_trace (snd (run_loop agent (Suc iteration) st')))"
        by blast
      with mm tl True Inr have "messages (t_memory (snd (run_loop agent iteration st)))
           = most_recent (nat (max_messages (t_memory st))) (pre @ cur @ (app @ app'))
       \<and> tool_results_answered (cur @ (app @ app'))
       \<and> length (t_trace st) + length (app @ app')
           \<le> length (t_trace (snd (run_loop agent iteration st)))"
        by (simp add: run_loop.simps [of agent iteration st])
      then show ?thesis by blast
    qed
  qed
qed

text \<open>
  C1, amended. The messages that \<open>Agent.run\<close> appends, the user message first, are such that
  every tool message among them comes strictly after an assistant message of the same
  turn, the latest one with tool calls, and carries the id of one of its requests (a plain
  dict or an object of the client): the request's own id when it has a non-empty one, and
  otherwise \<open>call_<iteration>_<name>\<close>, the iteration being the number of assistant
  messages with tool calls stored in the turn so far. Several requests may yield one id.
  There is at most one appended message per event of the trace, after the user message.
  Placed after the old messages, they keep this ordering if the old messages had it. The
  memory holds the \<open>max_messages\<close> most recent messages of that sequence: all of it when
  the bound leaves room, otherwise a suffix in which the request of a stored tool result
  may be gone. So a memory in which every tool message answers a request in this way is
  still such a memory after the turn, provided the bound leaves room for the user message
  and one message per model invocation and dispatch.
\<close>

theorem tool_results_follow_requests:
  "\<exists>appended.
      messages (t_memory (snd (run agent user_message w)))
        = most_recent (nat (max_messages (memory agent)))
            (messages (memory agent) @ Message_user user_message # appended)
    \<and> length appended \<le> length (t_trace (snd (run agent user_message w)))
    \<and> tool_results_answered (Message_user user_message # appended)
    \<and> (tool_results_answered (messages (memory agent)) \<longrightarrow>
         tool_results_answered (messages (memory agent) @ Message_user user_message # appended))
    \<and> (int (length (messages (memory agent))) + 1 + int (length appended) \<le> max_messages (memory agent)
         \<longrightarrow> messages (t_memory (snd (run agent user_message w)))
             = messages (memory agent) @ Message_user user_message # appended)
    \<and> (tool_results_answered (messages (memory agent))
         \<and> int (length (messages (memory agent))) + 1
             + int (length (t_trace (snd (run agent user_message w)))) \<le> max_messages (memory agent)
         \<longrightarrow> tool_results_answered (messages (t_memory (snd (run agent user_message w)))))"
proof -
  let ?st = "\<lparr>t_memory = add_user_message user_message (memory agent), t_world = w,
        t_calls_made = [], t_results = [], t_trace = []\<rparr>"
  let ?N = "nat (max_messages (memory agent))"
  let ?old = "messages (memory agent)"
  have m: "messages (t_memory ?st) = most_recent (nat (max_messages (t_memory ?st))) (?old @ [Message_user user_message])"
    by (simp add: add_message_messages add_message_fields)
  have a: "scan_turns (0, []) [Message_user user_message] = Some (0, [])"
    by (simp add: Message_user_def)
  from run_loop_answered [OF m a, of agent] obtain app where
    app: "messages (t_memory (snd (run agent user_message w)))
           = most_recent ?N (?old @ Message_user user_message # app)"
       "tool_results_answered (Message_user user_message # app)"
       "length app \<le> length (t_trace (snd (run agent user_message w)))"
    by (auto simp add: run_def add_message_fields)
  have u: "role (Message_user user_message) = USER" by (simp add: Message_user_def)
  have c: "tool_results_answered ?old \<longrightarrow> tool_results_answered (?old @ Message_user user_message # app)"
    using app(2) u by (simp add: answered_append)
  have d: "int (length ?old) + 1 + int (length app) \<le> max_messages (memory agent)
         \<longrightarrow> messages (t_memory (snd (run agent user_message w)))
             = ?old @ Message_user user_message # app"
    using app(1) by (simp add: most_recent_def)
  have e: "tool_results_answered ?old
         \<and> int (length ?old) + 1 + int (length (t_trace (snd (run agent user_message w))))
             \<le> max_messages (memory agent)
         \<longrightarrow> tool_results_answered (messages (t_memory (snd (run agent user_message w))))"
    using app(3) c d by auto
  from app c d e show ?thesis by blast
qed

theorem tool_results_follow_requests_witness:
  "tool_results_answered []
   \<and> messages (t_memory (snd (run (example_agent [requesting [calculator_object],
                                                   requesting [calculator_call, unknown_call]] 100 10)
                                ''hi'' (0, 0))))
     = [\<lparr>role = USER, content = ''hi'', tool_calls = None, tool_call_id = None\<rparr>,
        \<lparr>role = ASSISTANT, content = [], tool_calls = Some [Request calculator_object],
         tool_call_id = None\<rparr>,
        \<lparr>role = TOOL, content = ''2+2 = 4'', tool_calls = None,
         tool_call_id = Some ''call_1_calculator''\<rparr>,
        \<lparr>role = ASSISTANT, content = [],
         tool_calls = Some [Request calculator_call, Request unknown_call], tool_call_id = None\<rparr>,
        \<lparr>role = TOOL, content = ''2+2 = 4'', tool_calls = None,
         tool_call_id = Some ''call_2_calculator''\<rparr>,
        \<lparr>role = TOOL,
         content = ''Error: Tool not found: Tool 'translate' not found. Available tools: calculator'',
         tool_calls = None, tool_call_id = Some ''c7''\<rparr>,
        \<lparr>role = ASSISTANT, content = ''done'', tool_calls = None, tool_call_id = None\<rparr>]
   \<and> tool_results_answered
       (messages (t_memory (snd (run (example_agent [requesting [calculator_object],
                                                     requesting [calculator_call, unknown_call]] 100 10)
                                  ''hi'' (0, 0)))))
   \<and> \<not> tool_results_answered
         [\<lparr>role = USER, content = ''hi'', tool_calls = None, tool_call_id = None\<rparr>,
          \<lparr>role = ASSISTANT, content = [], tool_calls = Some [Request calculator_object],
           tool_call_id = None\<rparr>,
          \<lparr>role = TOOL, content = ''2+2 = 4'', tool_calls = None,
           tool_call_id = Some ''call_999_calculator''\<rparr>]
   \<and> \<not> tool_results_answered
         [\<lparr>role = USER, content = ''hi'', tool_calls = None, tool_call_id = None\<rparr>,
          \<lparr>role = ASSISTANT, content = [], tool_calls = Some [Request calculator_object],
           tool_call_id = None\<rparr>,
          \<lparr>role = TOOL, content = ''2+2 = 4'', tool_calls = None,
           tool_call_id = Some ''call_1_calculator''\<rparr>,
          \<lparr>role = ASSISTANT, content = [], tool_calls = Some [Request calculator_call],
           tool_call_id = None\<rparr>,
          \<lparr>role = TOOL, content = ''2+2 = 4'', tool_calls = None,
           tool_call_id = Some ''call_1_calculator''\<rparr>]"
proof -
  let ?agent = "example_agent [requesting [calculator_object],
                               requesting [calculator_call, unknown_call]] 100 10"
  let ?after = "messages (t_memory (snd (run ?agent ''hi'' (0, 0))))"
  have old: "messages (memory ?agent) = []" and bound: "max_messages (memory ?agent) = 100"
    by (simp_all add: example_agent_def)
  have h: "tool_results_answered (messages (memory ?agent))"
    by (simp add: old tool_results_answered_def)
  have len: "length (t_trace (snd (run ?agent ''hi'' (0, 0)))) = 6"
    by code_simp
  have room: "int (length (messages (memory ?agent))) + 1
              + int (length (t_trace (snd (run ?agent ''hi'' (0, 0))))) \<le> max_messages (memory ?agent)"
    by (simp add: old bound len)
  from tool_results_follow_requests [of ?agent "''hi''" "(0, 0)"] h room
  have ans: "tool_results_answered ?after" by blast
  have ms: "?after
     = [\<lparr>role = USER, content = ''hi'', tool_calls = None, tool_call_id = None\<rparr>,
        \<lparr>role = ASSISTANT, content = [], tool_calls = Some [Request calculator_object],
         tool_call_id = None\<rparr>,
        \<lparr>role = TOOL, content = ''2+2 = 4'', tool_calls = None,
         tool_call_id = Some ''call_1_calculator''\<rparr>,
        \<lparr>role = ASSISTANT, content = [],
         tool_calls = Some [Request calculator_call, Request unknown_call], tool_call_id = None\<rparr>,
        \<lparr>role = TOOL, content = ''2+2 = 4'', tool_calls = None,
         tool_call_id = Some ''call_2_calculator''\<rparr>,
        \<lparr>role = TOOL,
         content = ''Error: Tool not found: Tool 'translate' not found. Available tools: calculator'',
         tool_calls = None, tool_call_id = Some ''c7''\<rparr>,
        \<lparr>role = ASSISTANT, content = ''done'', tool_calls = None, tool_call_id = None\<rparr>]"
    by code_simp
  have n1: "\<not> tool_results_answered
         [\<lparr>role = USER, content = ''hi'', tool_calls = None, tool_call_id = None\<rparr>,
          \<lparr>role = ASSISTANT, content = [], tool_calls = Some [Request calculator_object],
           tool_call_id = None\<rparr>,
          \<lparr>role = TOOL, content = ''2+2 = 4'', tool_calls = None,
           tool_call_id = Some ''call_999_calculator''\<rparr>]"
    by code_simp
  have n2: "\<not> tool_results_answered
         [\<lparr>role = USER, content = ''hi'', tool_calls = None, tool_call_id = None\<rparr>,
          \<lparr>role = ASSISTANT, content = [], tool_calls = Some [Request calculator_object],
           tool_call_id = None\<rparr>,
          \<lparr>role = TOOL, content = ''2+2 = 4'', tool_calls = None,
           tool_call_id = Some ''call_1_calculator''\<rparr>,
          \<lparr>role = ASSISTANT, content = [], tool_calls = Some [Request calculator_call],
           tool_call_id = None\<rparr>,
          \<lparr>role = TOOL, content = ''2+2 = 4'', tool_calls = None,
           tool_call_id = Some ''call_1_calculator''\<rparr>]"
    by code_simp
  have e: "tool_results_answered []" by (simp add: tool_results_answered_def)
  from e ms ans n1 n2 show ?thesis by blast
qed

end
